theory Spec2Isabelle
  imports Complex_Main
begin

section \<open>Python values used by the analytics engine\<close>

text \<open>
  The engine is four Python classes (\<^verbatim>\<open>DistractionDetector\<close>, \<^verbatim>\<open>FocusCoach\<close>,
  \<^verbatim>\<open>TimePredictor\<close>, \<^verbatim>\<open>SmartSuggestions\<close>) whose methods take dictionaries and lists
  and return dictionaries. Conventions of the embedding:
  \<^item> a dictionary with known keys is a record whose fields are \<open>option\<close>s: \<open>None\<close> is
    an absent key, \<open>Some v\<close> a key carrying a value of the field's type;
  \<^item> Python \<^verbatim>\<open>int\<close> is \<open>int\<close> (or \<open>nat\<close> for a length or a count); Python \<^verbatim>\<open>float\<close>
    is read as the exact rational it denotes (\<open>rat\<close>), so rounding error of binary
    floating point is outside the model;
  \<^item> an exception is the \<open>Inl\<close> side of a sum;
  \<^item> \<^verbatim>\<open>datetime.now()\<close> is a parameter \<open>now\<close>, a naive datetime; the readings of the
    clock within one call are taken to be equal.
\<close>

datatype py_error =
    ValueError      \<comment> \<open>\<^verbatim>\<open>datetime.fromisoformat\<close> on a string it does not accept\<close>
  | TypeError       \<comment> \<open>comparing or subtracting an offset-naive and an offset-aware datetime\<close>
  | OverflowError   \<comment> \<open>datetime arithmetic leaving the years 1..9999\<close>
  | RecursionError  \<comment> \<open>unbounded self-call of a method\<close>

subsection \<open>Strings\<close>

text \<open>
  \<^verbatim>\<open>str.lower()\<close>, \<^verbatim>\<open>str.split()\<close>, \<^verbatim>\<open>x in s\<close> and \<^verbatim>\<open>s.replace("Z", "+00:00")\<close>
  on ASCII strings.
\<close>

definition lower_char :: "char \<Rightarrow> char" where
  "lower_char c =
     (case map_of (zip ''ABCDEFGHIJKLMNOPQRSTUVWXYZ'' ''abcdefghijklmnopqrstuvwxyz'') c of
        Some d \<Rightarrow> d
      | None \<Rightarrow> c)"

definition str_lower :: "string \<Rightarrow> string" where
  "str_lower s = map lower_char s"

definition isspace :: "char \<Rightarrow> bool" where
  \<comment> \<open>tab, newline, vertical tab, form feed, carriage return, the four separators
      0x1c..0x1f, and the space\<close>
  "isspace c \<longleftrightarrow>
     c \<in> set [CHR 0x09, CHR 0x0A, CHR 0x0B, CHR 0x0C, CHR 0x0D,
                CHR 0x1C, CHR 0x1D, CHR 0x1E, CHR 0x1F, CHR '' '']"

fun split_from :: "string \<Rightarrow> string \<Rightarrow> string list" where
  \<comment> \<open>the first argument is the word being read, reversed\<close>
  "split_from w [] = (if w = [] then [] else [rev w])"
| "split_from w (c # cs) =
     (if isspace c then (if w = [] then split_from [] cs else rev w # split_from [] cs)
      else split_from (c # w) cs)"

definition str_split :: "string \<Rightarrow> string list" where
  \<comment> \<open>\<^verbatim>\<open>s.split()\<close>: the maximal runs of non-whitespace characters\<close>
  "str_split s = split_from [] s"

fun str_contains :: "string \<Rightarrow> string \<Rightarrow> bool" where
  \<comment> \<open>\<^verbatim>\<open>k in s\<close>: \<open>k\<close> occurs in \<open>s\<close> as a contiguous substring\<close>
  "str_contains k [] \<longleftrightarrow> k = []"
| "str_contains k (c # cs) \<longleftrightarrow> take (length k) (c # cs) = k \<or> str_contains k cs"

definition replace_Z :: "string \<Rightarrow> string" where
  \<comment> \<open>\<^verbatim>\<open>s.replace("Z", "+00:00")\<close>: every occurrence is replaced\<close>
  "replace_Z s = concat (map (\<lambda>c. if c = CHR ''Z'' then ''+00:00'' else [c]) s)"

definition digit_of :: "char \<Rightarrow> nat option" where
  "digit_of c = map_of (zip ''0123456789'' [0, 1, 2, 3, 4, 5, 6, 7, 8, 9]) c"

fun digits_from :: "nat \<Rightarrow> string \<Rightarrow> nat option" where
  "digits_from acc [] = Some acc"
| "digits_from acc (c # cs) =
     (case digit_of c of None \<Rightarrow> None | Some d \<Rightarrow> digits_from (10 * acc + d) cs)"

definition parse_digits :: "string \<Rightarrow> nat option" where
  \<comment> \<open>a non-empty run of ASCII digits, read in base ten\<close>
  "parse_digits s = (if s = [] then None else digits_from 0 s)"

definition digit_char :: "nat \<Rightarrow> char" where
  "digit_char d = ''0123456789'' ! (d mod 10)"

function str_nat :: "nat \<Rightarrow> string" where
  \<comment> \<open>\<^verbatim>\<open>str(n)\<close> for \<open>n \<ge> 0\<close>\<close>
  "str_nat n = (if n < 10 then [digit_char n] else str_nat (n div 10) @ [digit_char n])"
  by pat_completeness auto
termination
  by (relation "measure id") auto

definition str_int :: "int \<Rightarrow> string" where
  "str_int i = (if i < 0 then CHR ''-'' # str_nat (nat (- i)) else str_nat (nat i))"

definition zero_pad :: "nat \<Rightarrow> nat \<Rightarrow> string" where
  \<comment> \<open>\<^verbatim>\<open>"%0wd" % n\<close>\<close>
  "zero_pad w n = (let s = str_nat n in replicate (w - length s) CHR ''0'' @ s)"

subsection \<open>Numbers\<close>

definition py_int :: "rat \<Rightarrow> int" where
  \<comment> \<open>\<^verbatim>\<open>int(x)\<close>: truncation towards zero\<close>
  "py_int x = (if 0 \<le> x then \<lfloor>x\<rfloor> else \<lceil>x\<rceil>)"

definition round_half_even :: "rat \<Rightarrow> int" where
  "round_half_even x =
     (let f = \<lfloor>x\<rfloor>; d = x - of_int f
      in if d < 1 / 2 then f else if 1 / 2 < d then f + 1 else if even f then f else f + 1)"

definition py_round2 :: "rat \<Rightarrow> rat" where
  \<comment> \<open>\<^verbatim>\<open>round(x, 2)\<close>\<close>
  "py_round2 x = of_int (round_half_even (x * 100)) / 100"

definition mean :: "rat list \<Rightarrow> rat" where
  \<comment> \<open>\<^verbatim>\<open>statistics.mean\<close>, called on non-empty lists only\<close>
  "mean xs = sum_list xs / of_nat (length xs)"

definition median :: "rat list \<Rightarrow> rat" where
  \<comment> \<open>\<^verbatim>\<open>statistics.median\<close>, called on non-empty lists only\<close>
  "median xs =
     (let s = sort xs; n = length s
      in if odd n then s ! (n div 2) else (s ! (n div 2 - 1) + s ! (n div 2)) / 2)"

subsection \<open>Dates and times\<close>

text \<open>
  A \<^verbatim>\<open>datetime\<close> is its fields; \<open>tzinfo\<close> is \<open>None\<close> for a naive value and the UTC offset
  in seconds for an aware one.
\<close>

record datetime =
  year :: nat
  month :: nat
  day :: nat
  hour :: nat
  minute :: nat
  second :: nat
  microsecond :: nat
  tzinfo :: "int option"

definition is_leap :: "nat \<Rightarrow> bool" where
  "is_leap y \<longleftrightarrow> y mod 4 = 0 \<and> (y mod 100 \<noteq> 0 \<or> y mod 400 = 0)"

definition days_in_month :: "nat \<Rightarrow> nat \<Rightarrow> nat" where
  "days_in_month y m =
     (if m = 2 \<and> is_leap y then 29
      else [31, 28, 31, 30, 31, 30, 31, 31, 30, 31, 30, 31] ! (m - 1))"

definition days_before_year :: "nat \<Rightarrow> nat" where
  "days_before_year y = (let p = y - 1 in p * 365 + p div 4 - p div 100 + p div 400)"

definition days_before_month :: "nat \<Rightarrow> nat \<Rightarrow> nat" where
  "days_before_month y m =
     [0, 31, 59, 90, 120, 151, 181, 212, 243, 273, 304, 334] ! (m - 1)
       + (if 2 < m \<and> is_leap y then 1 else 0)"

definition toordinal :: "datetime \<Rightarrow> nat" where
  \<comment> \<open>day number, 0001-01-01 being day 1\<close>
  "toordinal d = days_before_year (year d) + days_before_month (year d) (month d) + day d"

definition wall_micros :: "datetime \<Rightarrow> int" where
  \<comment> \<open>microseconds of the wall-clock fields since 0001-01-01T00:00:00\<close>
  "wall_micros d =
     (((int (toordinal d - 1) * 24 + int (hour d)) * 60 + int (minute d)) * 60
        + int (second d)) * 1000000 + int (microsecond d)"

definition instant :: "datetime \<Rightarrow> int" where
  \<comment> \<open>what two datetimes of the same kind are compared by: the wall clock for naive
      values, the UTC time for aware ones\<close>
  "instant d =
     (case tzinfo d of None \<Rightarrow> wall_micros d | Some off \<Rightarrow> wall_micros d - off * 1000000)"

definition same_kind :: "datetime \<Rightarrow> datetime \<Rightarrow> bool" where
  "same_kind a b \<longleftrightarrow> (tzinfo a = None) = (tzinfo b = None)"

definition dt_ge :: "datetime \<Rightarrow> datetime \<Rightarrow> py_error + bool" where
  \<comment> \<open>\<^verbatim>\<open>a >= b\<close>: "can't compare offset-naive and offset-aware datetimes"\<close>
  "dt_ge a b = (if same_kind a b then Inr (instant b \<le> instant a) else Inl TypeError)"

definition dt_lt :: "datetime \<Rightarrow> datetime \<Rightarrow> py_error + bool" where
  \<comment> \<open>\<^verbatim>\<open>a < b\<close>\<close>
  "dt_lt a b = (if same_kind a b then Inr (instant a < instant b) else Inl TypeError)"

definition dt_sub_seconds :: "datetime \<Rightarrow> datetime \<Rightarrow> py_error + rat" where
  \<comment> \<open>\<^verbatim>\<open>(a - b).total_seconds()\<close>\<close>
  "dt_sub_seconds a b =
     (if same_kind a b then Inr (of_int (instant a - instant b) / 1000000) else Inl TypeError)"

definition max_micros :: int where
  \<comment> \<open>\<open>wall_micros\<close> of 9999-12-31T23:59:59.999999\<close>
  "max_micros = 3652059 * 86400000000 - 1"

definition minus_hours :: "datetime \<Rightarrow> int \<Rightarrow> py_error + int" where
  \<comment> \<open>\<^verbatim>\<open>d - timedelta(hours=h)\<close> for a naive \<open>d\<close>, as the \<open>wall_micros\<close> of the result;
      the result has to be a date of the years 1..9999\<close>
  "minus_hours d h =
     (let r = wall_micros d - h * 3600000000
      in if 0 \<le> r \<and> r \<le> max_micros then Inr r else Inl OverflowError)"

definition ge_cutoff :: "datetime \<Rightarrow> int \<Rightarrow> py_error + bool" where
  \<comment> \<open>\<^verbatim>\<open>a >= cutoff_time\<close>, the cutoff being naive and given by its \<open>wall_micros\<close>\<close>
  "ge_cutoff a cutoff = (if tzinfo a = None then Inr (cutoff \<le> instant a) else Inl TypeError)"

text \<open>
  \<^verbatim>\<open>datetime.fromisoformat\<close> on the format that every Python from 3.7 on documents and
  accepts, \<^verbatim>\<open>YYYY-MM-DD[*HH[:MM[:SS[.fff[fff]]]][+HH:MM[:SS]]]\<close> with \<^verbatim>\<open>*\<close> any one
  character, followed by the range checks of the \<^verbatim>\<open>datetime\<close> constructor. A string
  outside this format is a \<open>ValueError\<close> here (later versions of Python read
  further ISO-8601 forms).
\<close>

definition field_at :: "string \<Rightarrow> nat \<Rightarrow> nat \<Rightarrow> nat option" where
  \<comment> \<open>the \<open>n\<close> digits at offset \<open>i\<close>\<close>
  "field_at s i n = (if i + n \<le> length s then parse_digits (take n (drop i s)) else None)"

definition sep_at :: "string \<Rightarrow> nat \<Rightarrow> char \<Rightarrow> bool" where
  "sep_at s i c \<longleftrightarrow> i < length s \<and> s ! i = c"

definition parse_hh_mm_ss_ff :: "string \<Rightarrow> (nat \<times> nat \<times> nat \<times> nat) option" where
  "parse_hh_mm_ss_ff t =
     (let n = length t in
      if n = 2 then
        Option.bind (field_at t 0 2) (\<lambda>h. Some (h, 0, 0, 0))
      else if n = 5 \<and> sep_at t 2 CHR '':'' then
        Option.bind (field_at t 0 2) (\<lambda>h.
        Option.bind (field_at t 3 2) (\<lambda>m. Some (h, m, 0, 0)))
      else if (n = 8 \<or> n = 12 \<or> n = 15) \<and> sep_at t 2 CHR '':'' \<and> sep_at t 5 CHR '':''
              \<and> (n = 8 \<or> sep_at t 8 CHR ''.'') then
        Option.bind (field_at t 0 2) (\<lambda>h.
        Option.bind (field_at t 3 2) (\<lambda>m.
        Option.bind (field_at t 6 2) (\<lambda>s.
          if n = 8 then Some (h, m, s, 0)
          else if n = 12 then Option.bind (field_at t 9 3) (\<lambda>f. Some (h, m, s, f * 1000))
          else Option.bind (field_at t 9 6) (\<lambda>f. Some (h, m, s, f)))))
      else None)"

definition parse_offset :: "string \<Rightarrow> int option" where
  \<comment> \<open>\<^verbatim>\<open>+HH:MM\<close> or \<^verbatim>\<open>+HH:MM:SS\<close> (or with \<^verbatim>\<open>-\<close>), as seconds; an offset has to be
      strictly between -24 and 24 hours\<close>
  "parse_offset z =
     (case z of
        [] \<Rightarrow> None
      | c # r \<Rightarrow>
          if (c = CHR ''+'' \<or> c = CHR ''-'') \<and> (length r = 5 \<or> length r = 8) then
            (case parse_hh_mm_ss_ff r of
               None \<Rightarrow> None
             | Some (h, m, s, f) \<Rightarrow>
                 (let secs = int (h * 3600 + m * 60 + s)
                  in if secs < 86400
                     then Some (if c = CHR ''-'' then - secs else secs) else None))
          else None)"

definition is_sign :: "char \<Rightarrow> bool" where
  "is_sign c \<longleftrightarrow> c = CHR ''+'' \<or> c = CHR ''-''"

definition fromisoformat :: "string \<Rightarrow> py_error + datetime" where
  "fromisoformat s =
     (if length s < 10 \<or> \<not> sep_at s 4 CHR ''-'' \<or> \<not> sep_at s 7 CHR ''-'' then Inl ValueError
      else
        (case (field_at s 0 4, field_at s 5 2, field_at s 8 2) of
           (Some y, Some mo, Some d) \<Rightarrow>
             (let rest = drop 11 s;
                  t = takeWhile (\<lambda>c. \<not> is_sign c) rest;
                  z = dropWhile (\<lambda>c. \<not> is_sign c) rest;
                  hmsf = (if length s = 10 then Some (0, 0, 0, 0) else parse_hh_mm_ss_ff t);
                  tz = (if z = [] then Some None else map_option Some (parse_offset z))
              in case (hmsf, tz) of
                   (Some (h, mi, sec, us), Some off) \<Rightarrow>
                     if 1 \<le> y \<and> y \<le> 9999 \<and> 1 \<le> mo \<and> mo \<le> 12 \<and> 1 \<le> d
                        \<and> d \<le> days_in_month y mo \<and> h < 24 \<and> mi < 60 \<and> sec < 60
                     then Inr \<lparr>year = y, month = mo, day = d, hour = h, minute = mi,
                               second = sec, microsecond = us, tzinfo = off\<rparr>
                     else Inl ValueError
                 | _ \<Rightarrow> Inl ValueError)
         | _ \<Rightarrow> Inl ValueError))"

definition parse_timestamp :: "string \<Rightarrow> py_error + datetime" where
  \<comment> \<open>\<^verbatim>\<open>datetime.fromisoformat(s.replace("Z", "+00:00"))\<close>\<close>
  "parse_timestamp s = fromisoformat (replace_Z s)"

definition isoformat :: "datetime \<Rightarrow> string" where
  \<comment> \<open>\<^verbatim>\<open>d.isoformat()\<close> of a naive datetime\<close>
  "isoformat d =
     zero_pad 4 (year d) @ ''-'' @ zero_pad 2 (month d) @ ''-'' @ zero_pad 2 (day d) @ ''T''
       @ zero_pad 2 (hour d) @ '':'' @ zero_pad 2 (minute d) @ '':'' @ zero_pad 2 (second d)
       @ (if microsecond d = 0 then [] else ''.'' @ zero_pad 6 (microsecond d))"

section \<open>Records of the engine\<close>

text \<open>
  A task dictionary, with the keys that the four classes read. A historical task of the
  predictor is a task with \<^verbatim>\<open>actual_minutes\<close> or \<^verbatim>\<open>duration_minutes\<close>.
\<close>

record task =
  task_id :: "string option"            \<comment> \<open>key \<^verbatim>\<open>id\<close>\<close>
  title :: "string option"
  description :: "string option"
  task_type :: "string option"          \<comment> \<open>key \<^verbatim>\<open>type\<close>\<close>
  priority :: "string option"
  due_date :: "string option"
  estimated_minutes :: "int option"
  duration_minutes :: "int option"
  actual_minutes :: "int option"
  category :: "string option"
  tags :: "string list option"
  status :: "string option"

definition get_or :: "'a option \<Rightarrow> 'a \<Rightarrow> 'a" where
  \<comment> \<open>\<^verbatim>\<open>d.get(key, default)\<close>\<close>
  "get_or v d = (case v of None \<Rightarrow> d | Some x \<Rightarrow> x)"

definition truthy_str :: "string option \<Rightarrow> bool" where
  \<comment> \<open>truth value of \<^verbatim>\<open>d.get(key)\<close> for a string: present and non-empty\<close>
  "truthy_str v \<longleftrightarrow> (case v of None \<Rightarrow> False | Some s \<Rightarrow> s \<noteq> [])"

definition truthy_num :: "'a::zero option \<Rightarrow> bool" where
  \<comment> \<open>truth value of \<^verbatim>\<open>d.get(key)\<close> for a number: present and non-zero\<close>
  "truthy_num v \<longleftrightarrow> (case v of None \<Rightarrow> False | Some x \<Rightarrow> x \<noteq> 0)"

definition py_or :: "'a::zero option \<Rightarrow> 'a option \<Rightarrow> 'a option" where
  \<comment> \<open>\<^verbatim>\<open>a or b\<close> on numbers that may be \<^verbatim>\<open>None\<close>\<close>
  "py_or a b = (if truthy_num a then a else b)"

section \<open>The duration predictor (\<^verbatim>\<open>time_predictor.py\<close>)\<close>

definition base_estimates :: "(string \<times> rat) list" where
  "base_estimates =
     [(''email'', 5), (''meeting'', 60), (''coding'', 90), (''writing'', 45),
      (''research'', 60), (''design'', 120), (''review'', 30), (''planning'', 60),
      (''general'', 30)]"

record features =
  title_length :: nat
  description_length :: nat
  word_count :: nat
  f_task_type :: string                  \<comment> \<open>key \<^verbatim>\<open>task_type\<close>\<close>
  f_priority :: string                   \<comment> \<open>key \<^verbatim>\<open>priority\<close>\<close>
  has_deadline :: bool
  f_estimated_minutes :: "int option"    \<comment> \<open>key \<^verbatim>\<open>estimated_minutes\<close>\<close>
  f_tags :: "string list"                \<comment> \<open>key \<^verbatim>\<open>tags\<close>\<close>
  complexity_score :: nat
  urgency_score :: nat

definition complexity_keywords :: "string list" where
  "complexity_keywords = [''complex'', ''difficult'', ''challenging'', ''multiple'', ''several'']"

definition urgency_keywords :: "string list" where
  "urgency_keywords = [''urgent'', ''asap'', ''immediate'', ''critical'', ''important'']"

definition keyword_hits :: "string list \<Rightarrow> string \<Rightarrow> string \<Rightarrow> nat" where
  \<comment> \<open>\<^verbatim>\<open>sum(1 for keyword in keywords if keyword in title or keyword in description)\<close>\<close>
  "keyword_hits kws t d = length (filter (\<lambda>k. str_contains k t \<or> str_contains k d) kws)"

definition extract_features :: "task \<Rightarrow> features" where
  "extract_features t =
     (let ti = str_lower (get_or (title t) []);
          de = str_lower (get_or (description t) [])
      in \<lparr>title_length = length ti,
          description_length = length de,
          word_count = length (str_split ti) + length (str_split de),
          f_task_type = str_lower (get_or (task_type t) ''general''),
          f_priority = str_lower (get_or (priority t) ''medium''),
          has_deadline = truthy_str (due_date t),
          f_estimated_minutes = estimated_minutes t,
          f_tags = get_or (tags t) [],
          complexity_score = keyword_hits complexity_keywords ti de,
          urgency_score = keyword_hits urgency_keywords ti de\<rparr>)"

definition word_count_scale :: "nat \<Rightarrow> rat \<Rightarrow> rat" where
  \<comment> \<open>\<^verbatim>\<open>if word_count > 500: base *= 1.5  elif word_count > 1000: base *= 2.0\<close>\<close>
  "word_count_scale wc base =
     (if wc > 500 then base * 1.5 else if wc > 1000 then base * 2.0 else base)"

definition get_base_estimate :: "task \<Rightarrow> features \<Rightarrow> rat" where
  "get_base_estimate t f =
     (let ty = f_task_type f;
          base = (case map_of base_estimates ty of Some b \<Rightarrow> b | None \<Rightarrow> 30);
          base = (if ty \<in> set [''writing'', ''research'', ''email'']
                  then word_count_scale (word_count f) base else base);
          complexity = complexity_score f
      in if complexity > 0 then base * (1 + of_nat complexity * 0.2) else base)"

definition jaccard :: "string list \<Rightarrow> string list \<Rightarrow> rat" where
  \<comment> \<open>\<^verbatim>\<open>len(a.intersection(b)) / len(a.union(b))\<close> for \<^verbatim>\<open>a = set(xs)\<close>, \<^verbatim>\<open>b = set(ys)\<close>,
      computed only when both are non-empty\<close>
  "jaccard xs ys = of_nat (card (set xs \<inter> set ys)) / of_nat (card (set xs \<union> set ys))"

definition similarity_score :: "task \<Rightarrow> task \<Rightarrow> rat" where
  \<comment> \<open>the body of the loop of \<^verbatim>\<open>_find_similar_tasks\<close> for one historical task \<open>h\<close>\<close>
  "similarity_score t h =
     (let task_words = str_split (str_lower (get_or (title t) []));
          hist_words = str_split (str_lower (get_or (title h) []));
          task_tags = get_or (tags t) [];
          hist_tags = get_or (tags h) []
      in (if str_lower (get_or (task_type h) []) = str_lower (get_or (task_type t) ''general'')
          then 3 else 0)
       + (if task_words \<noteq> [] \<and> hist_words \<noteq> [] then jaccard task_words hist_words * 2 else 0)
       + (if str_lower (get_or (priority h) []) = str_lower (get_or (priority t) ''medium'')
          then 1 else 0)
       + (if task_tags \<noteq> [] \<and> hist_tags \<noteq> [] then jaccard task_tags hist_tags else 0))"

definition find_similar_tasks :: "task \<Rightarrow> task list \<Rightarrow> task list" where
  "find_similar_tasks t historical_data =
     take 10 (filter (\<lambda>h. similarity_score t h \<ge> 2) historical_data)"

definition actual_duration :: "task \<Rightarrow> int option" where
  \<comment> \<open>\<^verbatim>\<open>t.get("actual_minutes") or t.get("duration_minutes")\<close>\<close>
  "actual_duration h = py_or (actual_minutes h) (duration_minutes h)"

definition adjust_with_history :: "rat \<Rightarrow> task \<Rightarrow> task list option \<Rightarrow> rat" where
  "adjust_with_history base_estimate t historical_data =
     (case historical_data of
        None \<Rightarrow> base_estimate
      | Some hist \<Rightarrow>
          if hist = [] then base_estimate
          else
            (let similar_tasks = find_similar_tasks t hist in
             if similar_tasks = [] then base_estimate
             else
               (let actual_durations =
                      map (\<lambda>h. of_int (get_or (actual_duration h) 0))
                        (filter (\<lambda>h. truthy_num (actual_duration h)) similar_tasks)
                in if actual_durations = [] then base_estimate
                   else
                     (let avg_actual = mean actual_durations;
                          median_actual = median actual_durations;
                          adjusted = avg_actual * 0.3 + median_actual * 0.7;
                          similarity_confidence = min (of_nat (length similar_tasks) / 5) 1.0
                      in base_estimate * (1 - similarity_confidence)
                           + adjusted * similarity_confidence))))"

text \<open>
  A user profile is a dictionary of numbers, kept as an association list so that the
  test \<^verbatim>\<open>if not user_profile\<close> (absent or empty) is the one of the source.
\<close>

type_synonym profile = "(string \<times> rat) list"

definition average_task_duration_minutes :: "profile \<Rightarrow> rat option" where
  "average_task_duration_minutes p = map_of p ''average_task_duration_minutes''"

definition adjust_with_profile :: "rat \<Rightarrow> profile option \<Rightarrow> rat" where
  "adjust_with_profile estimate user_profile =
     (case user_profile of
        None \<Rightarrow> estimate
      | Some p \<Rightarrow>
          if p = [] then estimate
          else if truthy_num (average_task_duration_minutes p)
               then estimate * (get_or (average_task_duration_minutes p) 0 / 30.0)
               else estimate)"

definition calculate_confidence :: "task \<Rightarrow> task list option \<Rightarrow> profile option \<Rightarrow> rat" where
  "calculate_confidence t historical_data user_profile =
     (let confidence = 0.5;
          confidence =
            (case historical_data of
               None \<Rightarrow> confidence
             | Some hist \<Rightarrow>
                 if hist = [] then confidence
                 else (let similar_count = length (find_similar_tasks t hist)
                       in if similar_count > 0
                          then confidence + min (of_nat similar_count / 10) 0.3
                          else confidence));
          confidence =
            (case user_profile of
               None \<Rightarrow> confidence
             | Some p \<Rightarrow>
                 if p \<noteq> [] \<and> truthy_num (average_task_duration_minutes p)
                 then confidence + 0.2 else confidence);
          confidence =
            (if \<not> truthy_str (description t) \<or> length (get_or (description t) []) < 10
             then confidence - 0.1 else confidence)
      in max 0.3 (min 0.95 confidence))"

definition generate_reasoning :: "task \<Rightarrow> rat \<Rightarrow> rat \<Rightarrow> string" where
  "generate_reasoning t estimate confidence =
     ''Based on '' @ get_or (task_type t) ''general''
       @ '' task patterns, estimated duration is '' @ str_int (py_int estimate) @ '' minutes. ''
       @ (if confidence > 0.7 then ''High confidence based on similar historical tasks.''
          else if confidence > 0.5 then ''Moderate confidence with some uncertainty.''
          else ''Lower confidence - task details may need refinement.'')"

record prediction =
  p_task_id :: "string option"           \<comment> \<open>key \<^verbatim>\<open>task_id\<close>\<close>
  predicted_minutes :: int
  confidence_score :: rat
  base_estimate_minutes :: int
  reasoning :: string
  input_features :: features
  model_version :: string
  predicted_at :: string

definition predict_task_duration ::
  "datetime \<Rightarrow> task \<Rightarrow> task list option \<Rightarrow> profile option \<Rightarrow> prediction" where
  "predict_task_duration now t historical_data user_profile =
     (let feats = extract_features t;
          base_estimate = get_base_estimate t feats;
          adjusted_estimate = adjust_with_history base_estimate t historical_data;
          final_estimate = adjust_with_profile adjusted_estimate user_profile;
          confidence = calculate_confidence t historical_data user_profile
      in \<lparr>p_task_id = task_id t,
          predicted_minutes = py_int final_estimate,
          confidence_score = py_round2 confidence,
          base_estimate_minutes = py_int base_estimate,
          reasoning = generate_reasoning t final_estimate confidence,
          input_features = feats,
          model_version = ''v1.0'',
          predicted_at = isoformat now\<rparr>)"

definition batch_predict ::
  "datetime \<Rightarrow> task list \<Rightarrow> task list option \<Rightarrow> profile option \<Rightarrow> prediction list" where
  "batch_predict now ts historical_data user_profile =
     map (\<lambda>t. predict_task_duration now t historical_data user_profile) ts"

section \<open>The distraction analyzer (\<^verbatim>\<open>distraction_detector.py\<close>)\<close>

record activity =
  activity_type :: "string option"
  activity_category :: "string option"
  timestamp :: "string option"
  duration_seconds :: "int option"
  distraction_score :: "rat option"

definition distraction_categories :: "(string \<times> rat \<times> string list) list" where
  \<comment> \<open>category, weight, apps\<close>
  "distraction_categories =
     [(''communication'', 0.8, [''slack'', ''cliq'', ''teams'', ''messages'']),
      (''entertainment'', 0.9, [''youtube'', ''netflix'', ''twitter'', ''instagram'', ''tiktok'']),
      (''social'', 0.7, [''facebook'', ''linkedin'', ''reddit'']),
      (''news'', 0.5, [''news'', ''cnn'', ''bbc'']),
      (''work'', 0.1, [''vscode'', ''excel'', ''docs'', ''sheets''])]"

definition category_weight :: "string \<Rightarrow> rat" where
  \<comment> \<open>\<^verbatim>\<open>self.distraction_categories.get(category, {}).get("weight", 0.5)\<close>\<close>
  "category_weight c = (case map_of distraction_categories c of Some (w, apps) \<Rightarrow> w | None \<Rightarrow> 0.5)"

subsection \<open>\<^verbatim>\<open>_calculate_distraction_scores\<close>\<close>

record category_data =
  c_count :: nat                         \<comment> \<open>key \<^verbatim>\<open>count\<close>\<close>
  c_total_duration :: int                \<comment> \<open>key \<^verbatim>\<open>total_duration\<close>\<close>
  c_distraction_duration :: rat          \<comment> \<open>key \<^verbatim>\<open>distraction_duration\<close>\<close>
  avg_score :: rat

record score_state =
  category_scores :: "(string \<times> category_data) list"   \<comment> \<open>a dict, in insertion order\<close>
  total_duration :: int
  distraction_duration :: rat

fun update_category :: "string \<Rightarrow> int \<Rightarrow> rat \<Rightarrow> (string \<times> category_data) list
    \<Rightarrow> (string \<times> category_data) list" where
  \<comment> \<open>create the entry of the category if it is new, then count the activity in it\<close>
  "update_category c dur w [] =
     [(c, \<lparr>c_count = 1, c_total_duration = dur, c_distraction_duration = of_int dur * w,
            avg_score = 0\<rparr>)]"
| "update_category c dur w ((k, d) # rest) =
     (if k = c
      then (k, d\<lparr>c_count := c_count d + 1,
                  c_total_duration := c_total_duration d + dur,
                  c_distraction_duration := c_distraction_duration d + of_int dur * w\<rparr>) # rest
      else (k, d) # update_category c dur w rest)"

definition score_step :: "score_state \<Rightarrow> activity \<Rightarrow> score_state" where
  \<comment> \<open>the body of the loop over the activities\<close>
  "score_step st a =
     (let category = str_lower (get_or (activity_category a) ''unknown'');
          duration = get_or (duration_seconds a) 0;
          weight = category_weight category;
          is_distraction = weight > 0.5
      in \<lparr>category_scores = update_category category duration weight (category_scores st),
          total_duration = total_duration st + duration,
          distraction_duration =
            (if is_distraction then distraction_duration st + of_int duration * weight
             else distraction_duration st)\<rparr>)"

definition set_avg_score :: "category_data \<Rightarrow> category_data" where
  "set_avg_score d =
     d\<lparr>avg_score := (if c_total_duration d > 0
                       then c_distraction_duration d / of_int (c_total_duration d) else 0)\<rparr>"

record distraction_scores =
  overall_distraction_score :: rat
  by_category :: "(string \<times> category_data) list"
  total_duration_seconds :: int
  distraction_duration_seconds :: rat

definition calculate_distraction_scores :: "activity list \<Rightarrow> distraction_scores" where
  "calculate_distraction_scores activities =
     (let st = foldl score_step
                 \<lparr>category_scores = [], total_duration = 0, distraction_duration = 0\<rparr> activities;
          overall_score = (if total_duration st > 0
                           then distraction_duration st / of_int (total_duration st) else 0)
      in \<lparr>overall_distraction_score = min overall_score 1.0,
          by_category = map (\<lambda>(k, d). (k, set_avg_score d)) (category_scores st),
          total_duration_seconds = total_duration st,
          distraction_duration_seconds = distraction_duration st\<rparr>)"

subsection \<open>\<^verbatim>\<open>_detect_patterns\<close>\<close>

datatype pattern =
    Peak_distraction_hour nat nat string     \<comment> \<open>hour, distraction_count, recommendation\<close>
  | Recurring_distraction string nat string  \<comment> \<open>category, frequency, recommendation\<close>
  | Rapid_context_switching nat string       \<comment> \<open>switch_count, recommendation\<close>

definition activity_time :: "activity \<Rightarrow> py_error + datetime" where
  \<comment> \<open>\<^verbatim>\<open>datetime.fromisoformat(a.get("timestamp", "").replace("Z", "+00:00"))\<close>\<close>
  "activity_time a = parse_timestamp (get_or (timestamp a) [])"

fun group_append :: "'k \<Rightarrow> 'v \<Rightarrow> ('k \<times> 'v list) list \<Rightarrow> ('k \<times> 'v list) list" where
  "group_append k v [] = [(k, [v])]"
| "group_append k v ((k', vs) # rest) =
     (if k' = k then (k', vs @ [v]) # rest else (k', vs) # group_append k v rest)"

fun hourly_activity :: "(nat \<times> activity list) list \<Rightarrow> activity list
    \<Rightarrow> py_error + (nat \<times> activity list) list" where
  "hourly_activity acc [] = Inr acc"
| "hourly_activity acc (a # as) =
     (case activity_time a of
        Inl e \<Rightarrow> Inl e
      | Inr d \<Rightarrow> hourly_activity (group_append (hour d) a acc) as)"

definition is_distracting :: "activity \<Rightarrow> bool" where
  \<comment> \<open>the test of the peak-hour count; the default category is the empty string here\<close>
  "is_distracting a \<longleftrightarrow> category_weight (str_lower (get_or (activity_category a) [])) > 0.5"

fun max_by :: "('a \<Rightarrow> nat) \<Rightarrow> 'a \<Rightarrow> 'a list \<Rightarrow> 'a" where
  \<comment> \<open>\<^verbatim>\<open>max(items, key=...)\<close>: the first of the maximal items\<close>
  "max_by key best [] = best"
| "max_by key best (x # xs) = max_by key (if key best < key x then x else best) xs"

fun count_append :: "'k \<Rightarrow> ('k \<times> nat) list \<Rightarrow> ('k \<times> nat) list" where
  \<comment> \<open>one more occurrence in a \<^verbatim>\<open>Counter\<close>\<close>
  "count_append k [] = [(k, 1)]"
| "count_append k ((k', n) # rest) =
     (if k' = k then (k', n + 1) # rest else (k', n) # count_append k rest)"

definition counter :: "'k list \<Rightarrow> ('k \<times> nat) list" where
  "counter ks = foldl (\<lambda>c k. count_append k c) [] ks"

definition most_common :: "nat \<Rightarrow> ('k \<times> nat) list \<Rightarrow> ('k \<times> nat) list" where
  \<comment> \<open>\<^verbatim>\<open>Counter.most_common(n)\<close>: by count, largest first, equal counts in insertion order\<close>
  "most_common n c = take n (sort_key (\<lambda>(k, m). - int m) c)"

fun rapid_switches :: "activity list \<Rightarrow> py_error + nat" where
  \<comment> \<open>the number of adjacent pairs less than 60 seconds apart\<close>
  "rapid_switches (a # b # rest) =
     (case activity_time b of
        Inl e \<Rightarrow> Inl e
      | Inr tb \<Rightarrow>
          (case activity_time a of
             Inl e \<Rightarrow> Inl e
           | Inr ta \<Rightarrow>
               (case dt_sub_seconds tb ta of
                  Inl e \<Rightarrow> Inl e
                | Inr time_diff \<Rightarrow>
                    (case rapid_switches (b # rest) of
                       Inl e \<Rightarrow> Inl e
                     | Inr n \<Rightarrow> Inr (if time_diff < 60 then n + 1 else n)))))"
| "rapid_switches _ = Inr 0"

definition detect_patterns :: "activity list \<Rightarrow> py_error + pattern list" where
  "detect_patterns activities =
     (case hourly_activity [] activities of
        Inl e \<Rightarrow> Inl e
      | Inr hourly \<Rightarrow>
          (let distraction_by_hour = map (\<lambda>(h, acts). (h, length (filter is_distracting acts))) hourly;
               peak = (case distraction_by_hour of
                         [] \<Rightarrow> []
                       | first # others \<Rightarrow>
                           (let (h, n) = max_by snd first others
                            in [Peak_distraction_hour h n
                                  (''Avoid scheduling focus sessions at '' @ str_nat h @ '':00'')]));
               category_counter =
                 counter (map (\<lambda>a. str_lower (get_or (activity_category a) ''unknown'')) activities);
               recurring =
                 map (\<lambda>(c, n). Recurring_distraction c n
                                 (''Consider blocking '' @ c @ '' during focus sessions''))
                   (filter (\<lambda>(c, n). category_weight c > 0.5) (most_common 3 category_counter))
           in case rapid_switches activities of
                Inl e \<Rightarrow> Inl e
              | Inr rapid \<Rightarrow>
                  Inr (peak @ recurring
                       @ (if of_nat rapid > of_nat (length activities) * (0.1 :: rat)
                          then [Rapid_context_switching rapid
                                  ''Try focusing on single tasks for longer periods'']
                          else []))))"

subsection \<open>\<^verbatim>\<open>_generate_insights\<close>\<close>

record insight =
  i_type :: string                        \<comment> \<open>key \<^verbatim>\<open>type\<close>\<close>
  severity :: string
  i_title :: string                       \<comment> \<open>key \<^verbatim>\<open>title\<close>\<close>
  i_description :: string                 \<comment> \<open>key \<^verbatim>\<open>description\<close>\<close>
  recommendations :: "string list"

definition format_percent1 :: "rat \<Rightarrow> string" where
  \<comment> \<open>\<^verbatim>\<open>f"{x:.1%}"\<close>: the percentage with one decimal\<close>
  "format_percent1 x =
     (let t = round_half_even (\<bar>x\<bar> * 1000)
      in (if x < 0 \<and> t \<noteq> 0 then ''-'' else []) @ str_nat (nat (t div 10)) @ ''.''
           @ str_nat (nat (t mod 10)) @ ''%'')"

definition pattern_insights :: "pattern \<Rightarrow> insight list" where
  \<comment> \<open>the insight of a pattern whose type is \<^verbatim>\<open>peak_distraction_hour\<close> or
      \<^verbatim>\<open>recurring_distraction\<close>; the title is
      \<^verbatim>\<open>pattern['type'].replace('_', ' ').title()\<close> after "Pattern Detected: "\<close>
  "pattern_insights p =
     (case p of
        Peak_distraction_hour h n r \<Rightarrow>
          [\<lparr>i_type = ''pattern_insight'', severity = ''medium'',
            i_title = ''Pattern Detected: Peak Distraction Hour'',
            i_description = r, recommendations = [r]\<rparr>]
      | Recurring_distraction c n r \<Rightarrow>
          [\<lparr>i_type = ''pattern_insight'', severity = ''medium'',
            i_title = ''Pattern Detected: Recurring Distraction'',
            i_description = r, recommendations = [r]\<rparr>]
      | Rapid_context_switching n r \<Rightarrow> [])"

definition generate_insights :: "activity list \<Rightarrow> distraction_scores \<Rightarrow> pattern list \<Rightarrow> insight list" where
  "generate_insights activities scores patterns =
     (let overall_score = overall_distraction_score scores
      in (if overall_score > 0.6 then
            [\<lparr>i_type = ''high_distraction'', severity = ''high'',
              i_title = ''High Distraction Level Detected'',
              i_description = ''Your distraction score is '' @ format_percent1 overall_score
                @ ''. Consider using focus mode more frequently.'',
              recommendations =
                [''Enable focus mode during peak work hours'',
                 ''Block distracting apps during focus sessions'',
                 ''Take strategic breaks to prevent burnout'']\<rparr>]
          else if overall_score > 0.4 then
            [\<lparr>i_type = ''moderate_distraction'', severity = ''medium'',
              i_title = ''Moderate Distraction Detected'',
              i_description = ''Your distraction score is '' @ format_percent1 overall_score
                @ ''. Some room for improvement.'',
              recommendations =
                [''Schedule focus sessions during your most productive hours'',
                 ''Minimize notifications during important tasks'']\<rparr>]
          else [])
         @ concat (map pattern_insights patterns))"

subsection \<open>\<^verbatim>\<open>_calculate_statistics\<close>\<close>

record statistics =
  s_total_activities :: nat               \<comment> \<open>key \<^verbatim>\<open>total_activities\<close>\<close>
  avg_duration_seconds :: rat
  median_duration_seconds :: rat
  avg_distraction_score :: rat
  max_distraction_score :: rat
  min_distraction_score :: rat

definition explicit_scores :: "activity list \<Rightarrow> rat list" where
  \<comment> \<open>\<^verbatim>\<open>[a.get("distraction_score", 0.0) for a in activities if a.get("distraction_score")]\<close>\<close>
  "explicit_scores activities =
     map (\<lambda>a. get_or (distraction_score a) 0)
       (filter (\<lambda>a. truthy_num (distraction_score a)) activities)"

definition calculate_statistics :: "activity list \<Rightarrow> distraction_scores \<Rightarrow> statistics" where
  \<comment> \<open>the second argument is not read by the source\<close>
  "calculate_statistics activities distraction_scores =
     (let durations = map (\<lambda>a. of_int (get_or (duration_seconds a) 0)) activities;
          scores = explicit_scores activities
      in \<lparr>s_total_activities = length activities,
          avg_duration_seconds = (if durations \<noteq> [] then mean durations else 0),
          median_duration_seconds = (if durations \<noteq> [] then median durations else 0),
          avg_distraction_score = (if scores \<noteq> [] then mean scores else 0),
          max_distraction_score = (if scores \<noteq> [] then Max (set scores) else 0),
          min_distraction_score = (if scores \<noteq> [] then Min (set scores) else 0)\<rparr>)"

subsection \<open>\<^verbatim>\<open>analyze_activity_patterns\<close>\<close>

record report =
  analysis_period_hours :: int
  total_activities :: nat
  r_distraction_scores :: distraction_scores   \<comment> \<open>key \<^verbatim>\<open>distraction_scores\<close>\<close>
  patterns :: "pattern list"
  insights :: "insight list"
  r_statistics :: statistics                   \<comment> \<open>key \<^verbatim>\<open>statistics\<close>\<close>
  r_model_version :: string                    \<comment> \<open>key \<^verbatim>\<open>model_version\<close>\<close>
  analyzed_at :: string

datatype analysis =
    Reported string nat   \<comment> \<open>the dictionary \<^verbatim>\<open>{"error": message, "total_activities": n}\<close>\<close>
  | Report report

definition in_window :: "int \<Rightarrow> activity \<Rightarrow> py_error + bool" where
  \<comment> \<open>the condition of the list comprehension:
      \<^verbatim>\<open>datetime.fromisoformat(a.get("timestamp", "").replace("Z", "+00:00")) >= cutoff_time\<close>\<close>
  "in_window cutoff a =
     (case activity_time a of Inl e \<Rightarrow> Inl e | Inr d \<Rightarrow> ge_cutoff d cutoff)"

fun recent_activities :: "int \<Rightarrow> activity list \<Rightarrow> py_error + activity list" where
  "recent_activities cutoff [] = Inr []"
| "recent_activities cutoff (a # as) =
     (case in_window cutoff a of
        Inl e \<Rightarrow> Inl e
      | Inr keep \<Rightarrow>
          (case recent_activities cutoff as of
             Inl e \<Rightarrow> Inl e
           | Inr r \<Rightarrow> Inr (if keep then a # r else r)))"

definition analyze_activity_patterns :: "datetime \<Rightarrow> activity list \<Rightarrow> int \<Rightarrow> py_error + analysis" where
  "analyze_activity_patterns now activities time_window_hours =
     (if activities = [] then Inr (Reported ''No activities provided for analysis'' 0)
      else
        (case minus_hours now time_window_hours of
           Inl e \<Rightarrow> Inl e
         | Inr cutoff_time \<Rightarrow>
             (case recent_activities cutoff_time activities of
                Inl e \<Rightarrow> Inl e
              | Inr recent \<Rightarrow>
                  if recent = []
                  then Inr (Reported ''No recent activities in the specified time window'' 0)
                  else
                    (let scores = calculate_distraction_scores recent
                     in case detect_patterns recent of
                          Inl e \<Rightarrow> Inl e
                        | Inr pats \<Rightarrow>
                            Inr (Report
                              \<lparr>analysis_period_hours = time_window_hours,
                               total_activities = length recent,
                               r_distraction_scores = scores,
                               patterns = pats,
                               insights = generate_insights recent scores pats,
                               r_statistics = calculate_statistics recent scores,
                               r_model_version = ''v1.0'',
                               analyzed_at = isoformat now\<rparr>)))))"

section \<open>The focus planner: \<^verbatim>\<open>summarize_tasks\<close> (\<^verbatim>\<open>focus_coach.py\<close>)\<close>

record summary_state =
  st_categories :: "(string \<times> string list) list"     \<comment> \<open>\<^verbatim>\<open>categories\<close>: category to titles\<close>
  st_priority_breakdown :: "(string \<times> nat) list"      \<comment> \<open>\<^verbatim>\<open>priority_breakdown\<close>\<close>
  st_total_estimated_minutes :: int                   \<comment> \<open>\<^verbatim>\<open>total_estimated_minutes\<close>\<close>

definition priority_key :: "task \<Rightarrow> string" where
  \<comment> \<open>\<^verbatim>\<open>task.get("priority", "medium").lower()\<close>\<close>
  "priority_key t = str_lower (get_or (priority t) ''medium'')"

definition estimated_of :: "task \<Rightarrow> int" where
  \<comment> \<open>\<^verbatim>\<open>task.get("estimated_minutes", 0) or task.get("duration_minutes", 0)\<close>\<close>
  "estimated_of t =
     (let e = get_or (estimated_minutes t) 0 in if e \<noteq> 0 then e else get_or (duration_minutes t) 0)"

definition summarize_step :: "summary_state \<Rightarrow> task \<Rightarrow> summary_state" where
  \<comment> \<open>the body of the loop over the tasks\<close>
  "summarize_step st t =
     \<lparr>st_categories =
        group_append (get_or (category t) ''general'') (get_or (title t) []) (st_categories st),
      st_priority_breakdown = count_append (priority_key t) (st_priority_breakdown st),
      st_total_estimated_minutes = st_total_estimated_minutes st + estimated_of t\<rparr>"

definition initial_summary_state :: summary_state where
  "initial_summary_state =
     \<lparr>st_categories = [],
      st_priority_breakdown = [(''urgent'', 0), (''high'', 0), (''medium'', 0), (''low'', 0)],
      st_total_estimated_minutes = 0\<rparr>"

definition rule_based_summary :: "nat \<Rightarrow> nat \<Rightarrow> (string \<times> nat) list \<Rightarrow> string" where
  \<comment> \<open>the fallback of \<^verbatim>\<open>_generate_ai_summary\<close>, from the number of tasks, the number of
      categories and the priority breakdown\<close>
  "rule_based_summary n_tasks ncat pb =
     (let urgent = get_or (map_of pb ''urgent'') 0;
          high = get_or (map_of pb ''high'') 0
      in ''You have '' @ str_nat n_tasks @ '' tasks to complete. ''
         @ (if urgent > 0
            then str_nat urgent @ '' urgent task(s) require immediate attention. '' else [])
         @ (if high > 0
            then str_nat high @ '' high-priority task(s) should be prioritized. '' else [])
         @ ''Tasks are distributed across '' @ str_nat ncat @ '' categories.'')"

fun str_join :: "string \<Rightarrow> string list \<Rightarrow> string" where
  \<comment> \<open>\<^verbatim>\<open>sep.join(xs)\<close>\<close>
  "str_join sep [] = []"
| "str_join sep [x] = x"
| "str_join sep (x # y # ys) = x @ sep @ str_join sep (y # ys)"

definition str_strip :: "string \<Rightarrow> string" where
  \<comment> \<open>\<^verbatim>\<open>s.strip()\<close>\<close>
  "str_strip s = rev (dropWhile isspace (rev (dropWhile isspace s)))"

definition summary_prompt :: "task list \<Rightarrow> string" where
  "summary_prompt tasks =
     ''Summarize the following tasks in a concise, actionable format:'' @ [CHR 0x0A]
       @ replicate 12 CHR '' '' @ [CHR 0x0A]
       @ str_join [CHR 0x0A]
           (map (\<lambda>t. ''- '' @ get_or (title t) ''Untitled'' @ '' (''
                       @ get_or (priority t) ''medium'' @ '' priority)'') (take 10 tasks))
       @ [CHR 0x0A, CHR 0x0A]
       @ ''Provide a brief summary focusing on priorities and key actions needed.''"

text \<open>
  The language-model client is the function from the prompt to the content of the
  answer, \<open>None\<close> when the request raises. The coach is built without a client by the
  service (\<^verbatim>\<open>FocusCoach()\<close>). With a client whose request raises, the handler calls
  \<^verbatim>\<open>_generate_ai_summary(None, ...)\<close>, which takes the same branch, fails on \<^verbatim>\<open>tasks[:10]\<close>
  and calls itself again without end: the call ends in \<open>RecursionError\<close>.
\<close>

type_synonym openai_client = "string \<Rightarrow> string option"

definition generate_ai_summary ::
  "openai_client option \<Rightarrow> task list \<Rightarrow> (string \<times> string list) list \<Rightarrow> (string \<times> nat) list
     \<Rightarrow> py_error + string" where
  "generate_ai_summary client tasks cats pb =
     (case client of
        None \<Rightarrow> Inr (rule_based_summary (length tasks) (length cats) pb)
      | Some request \<Rightarrow>
          (case request (summary_prompt tasks) of
             Some content \<Rightarrow> Inr (str_strip content)
           | None \<Rightarrow> Inl RecursionError))"

record task_summary =
  summary :: string
  total_tasks :: nat
  categories :: "(string \<times> nat) list"
  priority_breakdown :: "(string \<times> nat) list"
  total_estimated_minutes :: "int option"      \<comment> \<open>absent from the summary of no tasks\<close>
  average_task_minutes :: "rat option"         \<comment> \<open>absent from the summary of no tasks\<close>
  ts_model_version :: "string option"          \<comment> \<open>key \<^verbatim>\<open>model_version\<close>, absent likewise\<close>

definition summarize_tasks :: "openai_client option \<Rightarrow> task list \<Rightarrow> py_error + task_summary" where
  "summarize_tasks client tasks =
     (if tasks = [] then
        Inr \<lparr>summary = ''No tasks to summarize.'', total_tasks = 0, categories = [],
             priority_breakdown = [], total_estimated_minutes = None,
             average_task_minutes = None, ts_model_version = None\<rparr>
      else
        (let st = foldl summarize_step initial_summary_state tasks
         in case generate_ai_summary client tasks (st_categories st) (st_priority_breakdown st) of
              Inl e \<Rightarrow> Inl e
            | Inr body \<Rightarrow>
                Inr \<lparr>summary = body,
                     total_tasks = length tasks,
                     categories = map (\<lambda>(k, v). (k, length v)) (st_categories st),
                     priority_breakdown = st_priority_breakdown st,
                     total_estimated_minutes = Some (st_total_estimated_minutes st),
                     average_task_minutes =
                       Some (of_int (st_total_estimated_minutes st) / of_nat (length tasks)),
                     ts_model_version = Some ''v1.0''\<rparr>))"

section \<open>The suggestion ranker (\<^verbatim>\<open>smart_suggestions.py\<close>)\<close>

record focus_session =
  started_at :: "string option"
  fs_duration_minutes :: "int option"      \<comment> \<open>key \<^verbatim>\<open>duration_minutes\<close>\<close>
  interruption_count :: "int option"

datatype context_data =
    Schedule_context "nat list" rat                \<comment> \<open>peak_hours, productivity_score\<close>
  | Overdue_context nat "string option list"       \<comment> \<open>overdue_count, tasks\<close>
  | Break_context rat rat                          \<comment> \<open>avg_duration, avg_interruptions\<close>
  | Duration_context rat nat                       \<comment> \<open>optimal_duration, sample_size\<close>
  | Distraction_context string nat                 \<comment> \<open>distraction_type, frequency\<close>

record suggestion =
  suggestion_type :: string
  sg_title :: string                       \<comment> \<open>key \<^verbatim>\<open>title\<close>\<close>
  sg_description :: string                 \<comment> \<open>key \<^verbatim>\<open>description\<close>\<close>
  rationale :: string
  priority_score :: rat
  action_items :: "string list"
  expected_benefit :: string
  context_data :: context_data

subsection \<open>\<^verbatim>\<open>_generate_schedule_suggestions\<close>\<close>

record hour_data =
  h_duration :: int                        \<comment> \<open>key \<^verbatim>\<open>duration\<close>\<close>
  h_interruptions :: int                   \<comment> \<open>key \<^verbatim>\<open>interruptions\<close>\<close>
  h_count :: nat                           \<comment> \<open>key \<^verbatim>\<open>count\<close>\<close>

fun add_session :: "nat \<Rightarrow> int \<Rightarrow> int \<Rightarrow> (nat \<times> hour_data) list \<Rightarrow> (nat \<times> hour_data) list" where
  "add_session h dur intr [] = [(h, \<lparr>h_duration = dur, h_interruptions = intr, h_count = 1\<rparr>)]"
| "add_session h dur intr ((k, d) # rest) =
     (if k = h
      then (k, \<lparr>h_duration = h_duration d + dur, h_interruptions = h_interruptions d + intr,
                h_count = h_count d + 1\<rparr>) # rest
      else (k, d) # add_session h dur intr rest)"

fun hourly_productivity :: "(nat \<times> hour_data) list \<Rightarrow> focus_session list
    \<Rightarrow> py_error + (nat \<times> hour_data) list" where
  "hourly_productivity acc [] = Inr acc"
| "hourly_productivity acc (s # ss) =
     (case parse_timestamp (get_or (started_at s) []) of
        Inl e \<Rightarrow> Inl e
      | Inr d \<Rightarrow>
          hourly_productivity
            (add_session (hour d) (get_or (fs_duration_minutes s) 0)
               (get_or (interruption_count s) 0) acc) ss)"

definition productivity :: "hour_data \<Rightarrow> rat" where
  \<comment> \<open>\<^verbatim>\<open>x[1]["duration"] / max(x[1]["interruptions"], 1)\<close>\<close>
  "productivity d = of_int (h_duration d) / of_int (max (h_interruptions d) 1)"

definition hour_label :: "nat \<Rightarrow> string" where
  \<comment> \<open>\<^verbatim>\<open>f"{h}:00"\<close>\<close>
  "hour_label h = str_nat h @ '':00''"

definition schedule_suggestion :: "(nat \<times> hour_data) list \<Rightarrow> suggestion" where
  \<comment> \<open>the dictionary appended for the non-empty list \<^verbatim>\<open>best_hours\<close>\<close>
  "schedule_suggestion best_hours =
     (let peak_hours = map fst best_hours
      in \<lparr>suggestion_type = ''schedule_optimization'',
          sg_title = ''Optimize Your Schedule'',
          sg_description = ''Your most productive hours are ''
            @ str_join '', '' (map hour_label peak_hours)
            @ ''. Schedule important tasks during these times.'',
          rationale = ''Based on your focus session history, these hours show the highest productivity with minimal interruptions.'',
          priority_score = 0.85,
          action_items =
            [''Schedule high-priority tasks between '' @ hour_label (hd peak_hours)
               @ '' and '' @ hour_label (last peak_hours),
             ''Block these hours in your calendar for deep work''],
          expected_benefit = ''30% increase in focus session effectiveness'',
          context_data = Schedule_context peak_hours (productivity (snd (hd best_hours)))\<rparr>)"

definition generate_schedule_suggestions ::
  "focus_session list \<Rightarrow> profile \<Rightarrow> py_error + suggestion list" where
  "generate_schedule_suggestions focus_sessions productivity_data =
     (if focus_sessions = [] then Inr []
      else
        (case hourly_productivity [] focus_sessions of
           Inl e \<Rightarrow> Inl e
         | Inr hourly \<Rightarrow>
             (let best_hours = take 3 (sort_key (\<lambda>(h, d). - productivity d) hourly)
              in if best_hours = [] then Inr [] else Inr [schedule_suggestion best_hours])))"

subsection \<open>\<^verbatim>\<open>_generate_task_prioritization_suggestions\<close>\<close>

definition is_overdue :: "datetime \<Rightarrow> task \<Rightarrow> py_error + bool" where
  \<comment> \<open>\<^verbatim>\<open>t.get("due_date") and fromisoformat(t.get("due_date", "").replace("Z", "+00:00")) < datetime.now()\<close>\<close>
  "is_overdue now t =
     (if \<not> truthy_str (due_date t) then Inr False
      else (case parse_timestamp (get_or (due_date t) []) of
              Inl e \<Rightarrow> Inl e
            | Inr d \<Rightarrow> dt_lt d now))"

fun overdue_tasks :: "datetime \<Rightarrow> task list \<Rightarrow> py_error + task list" where
  "overdue_tasks now [] = Inr []"
| "overdue_tasks now (t # ts) =
     (case is_overdue now t of
        Inl e \<Rightarrow> Inl e
      | Inr keep \<Rightarrow>
          (case overdue_tasks now ts of
             Inl e \<Rightarrow> Inl e
           | Inr r \<Rightarrow> Inr (if keep then t # r else r)))"

definition incomplete_high_priority :: "task \<Rightarrow> bool" where
  "incomplete_high_priority t \<longleftrightarrow>
     status t \<notin> set [Some ''completed'', Some ''cancelled'']
     \<and> str_lower (get_or (priority t) ''medium'') \<in> set [''urgent'', ''high'']"

definition overdue_suggestion :: "task list \<Rightarrow> suggestion" where
  \<comment> \<open>the dictionary appended for the non-empty list \<^verbatim>\<open>overdue\<close>\<close>
  "overdue_suggestion overdue =
     \<lparr>suggestion_type = ''task_prioritization'',
      sg_title = ''Focus on Overdue High-Priority Tasks'',
      sg_description = ''You have '' @ str_nat (length overdue)
        @ '' overdue high-priority task(s) that need immediate attention.'',
      rationale = ''Overdue high-priority tasks can cause stress and reduce overall productivity.'',
      priority_score = 0.95,
      action_items =
        [''Review '' @ str_nat (length overdue) @ '' overdue task(s)'',
         ''Schedule focus sessions for these tasks today'',
         ''Consider breaking down complex tasks into smaller pieces''],
      expected_benefit = ''Reduce stress and improve task completion rate'',
      context_data = Overdue_context (length overdue) (map title (take 3 overdue))\<rparr>"

definition generate_task_prioritization_suggestions ::
  "datetime \<Rightarrow> task list \<Rightarrow> focus_session list \<Rightarrow> py_error + suggestion list" where
  "generate_task_prioritization_suggestions now tasks focus_sessions =
     (let candidates = filter incomplete_high_priority tasks
      in if candidates = [] then Inr []
         else
           (case overdue_tasks now candidates of
              Inl e \<Rightarrow> Inl e
            | Inr overdue \<Rightarrow> if overdue = [] then Inr [] else Inr [overdue_suggestion overdue]))"

subsection \<open>\<^verbatim>\<open>_generate_break_timing_suggestions\<close>\<close>

definition break_suggestion :: "rat \<Rightarrow> rat \<Rightarrow> suggestion" where
  "break_suggestion avg_duration avg_interruptions =
     \<lparr>suggestion_type = ''break_timing'',
      sg_title = ''Take Strategic Breaks Earlier'',
      sg_description = ''Your focus sessions show increased interruptions after ''
        @ str_int (py_int avg_duration)
        @ '' minutes. Try taking breaks at 45-minute intervals.'',
      rationale = ''Taking breaks before productivity naturally declines can maintain focus quality.'',
      priority_score = 0.75,
      action_items =
        [''Set focus sessions to 45 minutes instead of longer durations'',
         ''Take 5-10 minute breaks between sessions'',
         ''Use breaks to hydrate and stretch''],
      expected_benefit = ''20% reduction in interruptions and improved focus quality'',
      context_data = Break_context avg_duration avg_interruptions\<rparr>"

definition generate_break_timing_suggestions ::
  "focus_session list \<Rightarrow> activity list \<Rightarrow> suggestion list" where
  "generate_break_timing_suggestions focus_sessions activity_patterns =
     (if focus_sessions = [] then []
      else
        (let sessions_with_interruptions =
               filter (\<lambda>s. get_or (interruption_count s) 0 > 0) focus_sessions
         in if sessions_with_interruptions = [] then []
            else
              (let avg_duration =
                     mean (map (\<lambda>s. of_int (get_or (fs_duration_minutes s) 0))
                             sessions_with_interruptions);
                   avg_interruptions =
                     mean (map (\<lambda>s. of_int (get_or (interruption_count s) 0))
                             sessions_with_interruptions)
               in if avg_interruptions > 3 \<and> avg_duration > 50
                  then [break_suggestion avg_duration avg_interruptions] else [])))"

subsection \<open>\<^verbatim>\<open>_generate_duration_suggestions\<close>\<close>

definition duration_suggestion :: "rat \<Rightarrow> nat \<Rightarrow> suggestion" where
  "duration_suggestion median_duration sample_size =
     (let minutes = str_int (py_int median_duration)
      in \<lparr>suggestion_type = ''focus_duration'',
          sg_title = ''Optimal Focus Duration: '' @ minutes @ '' Minutes'',
          sg_description = ''Your most successful focus sessions average '' @ minutes
            @ '' minutes with minimal interruptions.'',
          rationale = ''Using your proven optimal duration can improve focus session success rate.'',
          priority_score = 0.70,
          action_items =
            [''Set default focus duration to '' @ minutes @ '' minutes'',
             ''Experiment with '' @ [CHR 0xC2, CHR 0xB1] @ ''5 minute variations to fine-tune'',
             ''Track interruption rates to validate optimal duration''],
          expected_benefit = ''Higher focus session completion rate with fewer interruptions'',
          context_data = Duration_context median_duration sample_size\<rparr>)"

definition generate_duration_suggestions ::
  "focus_session list \<Rightarrow> task list \<Rightarrow> suggestion list" where
  "generate_duration_suggestions focus_sessions tasks =
     (if focus_sessions = [] then []
      else
        (let successful_sessions =
               filter (\<lambda>s. get_or (interruption_count s) 0 \<le> 1
                            \<and> get_or (fs_duration_minutes s) 0 \<ge> 30) focus_sessions
         in if successful_sessions = [] then []
            else [duration_suggestion
                    (median (map (\<lambda>s. of_int (get_or (fs_duration_minutes s) 0))
                               successful_sessions))
                    (length successful_sessions)]))"

subsection \<open>\<^verbatim>\<open>_generate_pattern_suggestions\<close>\<close>

definition upper_char :: "char \<Rightarrow> char" where
  "upper_char c =
     (case map_of (zip ''abcdefghijklmnopqrstuvwxyz'' ''ABCDEFGHIJKLMNOPQRSTUVWXYZ'') c of
        Some d \<Rightarrow> d
      | None \<Rightarrow> c)"

definition is_letter :: "char \<Rightarrow> bool" where
  "is_letter c \<longleftrightarrow> c \<in> set ''abcdefghijklmnopqrstuvwxyzABCDEFGHIJKLMNOPQRSTUVWXYZ''"

fun title_from :: "bool \<Rightarrow> string \<Rightarrow> string" where
  \<comment> \<open>the flag tells whether the previous character was a letter\<close>
  "title_from prev [] = []"
| "title_from prev (c # cs) =
     (if is_letter c then (if prev then lower_char c else upper_char c) # title_from True cs
      else c # title_from False cs)"

definition str_title :: "string \<Rightarrow> string" where
  \<comment> \<open>\<^verbatim>\<open>s.title()\<close> on ASCII\<close>
  "str_title s = title_from False s"

definition distraction_suggestion :: "string \<times> nat \<Rightarrow> suggestion" where
  \<comment> \<open>the dictionary appended for \<^verbatim>\<open>top_distraction\<close>, a category and its count; the second
      action item is not an f-string in the source\<close>
  "distraction_suggestion top_distraction =
     (let topcat = fst top_distraction
      in \<lparr>suggestion_type = ''distraction_management'',
          sg_title = ''Manage '' @ str_title topcat @ '' Distractions'',
          sg_description = ''You have frequent '' @ topcat
            @ '' distractions during focus time. Consider blocking these during focus sessions.'',
          rationale = ''Reducing '' @ topcat
            @ '' distractions can significantly improve focus quality.'',
          priority_score = 0.80,
          action_items =
            [''Enable focus mode to block '' @ topcat @ '' notifications'',
             ''Schedule {top_distraction[0]} time during breaks'',
             ''Use app blockers during focus sessions''],
          expected_benefit = ''40% reduction in distractions during focus sessions'',
          context_data = Distraction_context topcat (snd top_distraction)\<rparr>)"

definition generate_pattern_suggestions ::
  "activity list \<Rightarrow> focus_session list \<Rightarrow> suggestion list" where
  "generate_pattern_suggestions activity_patterns focus_sessions =
     (if activity_patterns = [] then []
      else
        (let high_distraction_activities =
               filter (\<lambda>a. get_or (distraction_score a) 0 > 0.7) activity_patterns;
             distraction_types =
               counter (map (\<lambda>a. get_or (activity_category a) ''unknown'')
                          high_distraction_activities)
         in if distraction_types = [] then []
            else [distraction_suggestion
                    (max_by snd (hd distraction_types) (tl distraction_types))]))"

subsection \<open>\<^verbatim>\<open>generate_suggestions\<close>\<close>

definition generated_suggestions ::
  "datetime \<Rightarrow> profile \<Rightarrow> focus_session list \<Rightarrow> task list \<Rightarrow> activity list
     \<Rightarrow> py_error + suggestion list" where
  \<comment> \<open>the list \<^verbatim>\<open>suggestions\<close> after the five \<^verbatim>\<open>extend\<close> calls, before it is sorted\<close>
  "generated_suggestions now productivity_data focus_sessions tasks activity_patterns =
     (case generate_schedule_suggestions focus_sessions productivity_data of
        Inl e \<Rightarrow> Inl e
      | Inr schedule_suggestions \<Rightarrow>
          (case generate_task_prioritization_suggestions now tasks focus_sessions of
             Inl e \<Rightarrow> Inl e
           | Inr task_suggestions \<Rightarrow>
               Inr (schedule_suggestions @ task_suggestions
                    @ generate_break_timing_suggestions focus_sessions activity_patterns
                    @ generate_duration_suggestions focus_sessions tasks
                    @ generate_pattern_suggestions activity_patterns focus_sessions)))"

definition sort_by_priority :: "suggestion list \<Rightarrow> suggestion list" where
  \<comment> \<open>\<^verbatim>\<open>suggestions.sort(key=lambda x: x.get("priority_score", 0), reverse=True)\<close>: the
      stable sort, largest score first, equal scores in their previous order\<close>
  "sort_by_priority xs = sort_key (\<lambda>s. - priority_score s) xs"

definition generate_suggestions ::
  "datetime \<Rightarrow> string \<Rightarrow> profile \<Rightarrow> focus_session list \<Rightarrow> task list \<Rightarrow> activity list
     \<Rightarrow> py_error + suggestion list" where
  "generate_suggestions now user_id productivity_data focus_sessions tasks activity_patterns =
     (case generated_suggestions now productivity_data focus_sessions tasks activity_patterns of
        Inl e \<Rightarrow> Inl e
      | Inr suggestions \<Rightarrow> Inr (take 10 (sort_by_priority suggestions)))"

subsection \<open>Inputs and the history-free pipeline used in the statements about the predictor\<close>

text \<open>A reading of the clock, and a coding task without description.\<close>

definition sample_now :: datetime where
  "sample_now = \<lparr>year = 2024, month = 3, day = 5, hour = 9, minute = 30, second = 0,
     microsecond = 0, tzinfo = None\<rparr>"

definition coding_task :: task where
  "coding_task = \<lparr>task_id = Some ''t7'', title = Some ''Fix login'', description = None,
     task_type = Some ''coding'', priority = None, due_date = None, estimated_minutes = None,
     duration_minutes = None, actual_minutes = None, category = None, tags = None,
     status = None\<rparr>"

text \<open>A writing task whose description has 1001 words.\<close>

definition thousand_words :: string where
  "thousand_words = concat (replicate 1001 ''a '')"

definition long_essay :: task where
  "long_essay = \<lparr>task_id = Some ''t1'', title = Some ''Essay'', description = Some thousand_words,
     task_type = Some ''writing'', priority = None, due_date = None, estimated_minutes = None,
     duration_minutes = None, actual_minutes = None, category = None, tags = None, status = None\<rparr>"

text \<open>
  The pipeline without the historical stage: base estimate, then the profile adjustment;
  the confidence has no historical term.
\<close>

definition profile_only_pipeline :: "datetime \<Rightarrow> task \<Rightarrow> profile option \<Rightarrow> prediction" where
  "profile_only_pipeline now t user_profile =
     (let feats = extract_features t;
          base_estimate = get_base_estimate t feats;
          final_estimate = adjust_with_profile base_estimate user_profile;
          profile_bonus =
            (case user_profile of
               None \<Rightarrow> 0
             | Some p \<Rightarrow> if p \<noteq> [] \<and> truthy_num (average_task_duration_minutes p) then 0.2 else 0);
          vague_penalty =
            (if \<not> truthy_str (description t) \<or> length (get_or (description t) []) < 10
             then 0.1 else 0);
          confidence = max 0.3 (min 0.95 (0.5 + profile_bonus - vague_penalty))
      in \<lparr>p_task_id = task_id t,
          predicted_minutes = py_int final_estimate,
          confidence_score = py_round2 confidence,
          base_estimate_minutes = py_int base_estimate,
          reasoning = generate_reasoning t final_estimate confidence,
          input_features = feats,
          model_version = ''v1.0'',
          predicted_at = isoformat now\<rparr>)"


subsection \<open>Inputs and measures used in the statements about the analyzer\<close>

definition activity_at :: "string \<Rightarrow> string \<Rightarrow> int \<Rightarrow> rat option \<Rightarrow> activity" where
  "activity_at ts cat dur sc =
     \<lparr>activity_type = Some ''app'', activity_category = Some cat, timestamp = Some ts,
      duration_seconds = Some dur, distraction_score = sc\<rparr>"

definition zulu_activity :: activity where
  "zulu_activity = activity_at ''2024-03-05T09:00:00Z'' ''entertainment'' 600 None"

definition old_zulu_activity :: activity where
  "old_zulu_activity = activity_at ''2020-01-01T00:00:00Z'' ''entertainment'' 600 None"

definition old_naive_activity :: activity where
  "old_naive_activity = activity_at ''2020-01-01T00:00:00'' ''entertainment'' 600 None"

definition work_activity :: activity where
  "work_activity = activity_at ''2024-03-05T09:00:00'' ''work'' 600 None"

definition zero_score_activity :: activity where
  "zero_score_activity = activity_at ''2024-03-05T09:00:00'' ''work'' 600 (Some 0)"

definition scored_activity :: activity where
  "scored_activity = activity_at ''2024-03-05T09:10:00'' ''social'' 300 (Some 0.8)"

definition category_key :: "activity \<Rightarrow> string" where
  \<comment> \<open>\<^verbatim>\<open>activity.get("activity_category", "unknown").lower()\<close>\<close>
  "category_key a = str_lower (get_or (activity_category a) ''unknown'')"

definition activity_weight :: "activity \<Rightarrow> rat" where
  "activity_weight a = category_weight (category_key a)"

definition in_category :: "string \<Rightarrow> activity \<Rightarrow> bool" where
  "in_category k a \<longleftrightarrow> category_key a = k"

definition category_pool :: "(string \<times> category_data) list \<Rightarrow> string \<Rightarrow> rat option" where
  \<comment> \<open>the \<^verbatim>\<open>distraction_duration\<close> of a category in the per-category dictionary, if it has
      an entry\<close>
  "category_pool cs k = map_option c_distraction_duration (map_of cs k)"

definition duration_of :: "activity \<Rightarrow> int" where
  "duration_of a = get_or (duration_seconds a) 0"

definition weighted_duration :: "activity \<Rightarrow> rat" where
  "weighted_duration a = of_int (duration_of a) * activity_weight a"

definition over_threshold :: "activity \<Rightarrow> bool" where
  "over_threshold a \<longleftrightarrow> activity_weight a > 0.5"

definition naive_activity :: activity where
  "naive_activity = activity_at ''2024-03-05T09:00:00'' ''entertainment'' 600 None"


subsection \<open>Inputs and measures used in the statements about the task summary\<close>

text \<open>The number of tasks whose lower-cased priority (\<^verbatim>\<open>medium\<close> when absent) is \<open>k\<close>.\<close>

definition tally :: "string \<Rightarrow> task list \<Rightarrow> nat" where
  "tally k tasks = length (filter (\<lambda>t. priority_key t = k) tasks)"

definition blocker_task :: task where
  "blocker_task = \<lparr>task_id = Some ''t9'', title = Some ''Unblock release'', description = None,
     task_type = None, priority = Some ''Blocker'', due_date = None, estimated_minutes = None,
     duration_minutes = None, actual_minutes = None, category = None, tags = None,
     status = None\<rparr>"

definition blocker_summary :: task_summary where
  "blocker_summary =
     \<lparr>summary = ''You have 1 tasks to complete. Tasks are distributed across 1 categories.'',
      total_tasks = 1, categories = [(''general'', 1)],
      priority_breakdown =
        [(''urgent'', 0), (''high'', 0), (''medium'', 0), (''low'', 0), (''blocker'', 1)],
      total_estimated_minutes = Some 0, average_task_minutes = Some 0,
      ts_model_version = Some ''v1.0''\<rparr>"


subsection \<open>Inputs and predicates used in the statements about the ranker\<close>

definition score_constants :: "rat set" where
  "score_constants = {0.95, 0.85, 0.80, 0.75, 0.70}"

definition at_most_one_scored :: "rat \<Rightarrow> suggestion list \<Rightarrow> bool" where
  "at_most_one_scored c ys \<longleftrightarrow> length ys \<le> 1 \<and> (\<forall>s \<in> set ys. priority_score s = c)"

definition session :: "string \<Rightarrow> int \<Rightarrow> int \<Rightarrow> focus_session" where
  "session ts dur intr =
     \<lparr>started_at = Some ts, fs_duration_minutes = Some dur, interruption_count = Some intr\<rparr>"

definition sample_sessions :: "focus_session list" where
  "sample_sessions =
     [session ''2024-03-04T09:00:00'' 60 4, session ''2024-03-04T14:00:00'' 55 4,
      session ''2024-03-04T10:00:00'' 45 0]"

definition overdue_task :: task where
  "overdue_task = \<lparr>task_id = Some ''t3'', title = Some ''Quarterly report'', description = None,
     task_type = None, priority = Some ''high'', due_date = Some ''2024-03-01T12:00:00'',
     estimated_minutes = None, duration_minutes = None, actual_minutes = None, category = None,
     tags = None, status = None\<rparr>"

definition social_pattern :: activity where
  "social_pattern =
     \<lparr>activity_type = Some ''app'', activity_category = Some ''social'',
      timestamp = Some ''2024-03-05T09:10:00'', duration_seconds = Some 300,
      distraction_score = Some 0.8\<rparr>"

definition sample_best_hours :: "(nat \<times> hour_data) list" where
  "sample_best_hours =
     [(10, \<lparr>h_duration = 45, h_interruptions = 0, h_count = 1\<rparr>),
      (9, \<lparr>h_duration = 60, h_interruptions = 4, h_count = 1\<rparr>),
      (14, \<lparr>h_duration = 55, h_interruptions = 4, h_count = 1\<rparr>)]"

definition sample_ranking :: "suggestion list" where
  "sample_ranking =
     [overdue_suggestion [overdue_task], schedule_suggestion sample_best_hours,
      distraction_suggestion (''social'', 1), break_suggestion (115 / 2) 4,
      duration_suggestion 45 1]"

definition descending :: "suggestion list \<Rightarrow> bool" where
  "descending xs \<longleftrightarrow> sorted_wrt (\<lambda>a b. priority_score b \<le> priority_score a) xs"

definition returns_at_most_one :: "rat \<Rightarrow> py_error + suggestion list \<Rightarrow> bool" where
  "returns_at_most_one c r \<longleftrightarrow> (case r of Inl e \<Rightarrow> True | Inr ys \<Rightarrow> at_most_one_scored c ys)"


section \<open>Properties of the duration predictor\<close>

lemma lower_char_a: "lower_char CHR ''a'' = CHR ''a''" "lower_char CHR '' '' = CHR '' ''"
  by (simp_all add: lower_char_def)

lemma str_lower_words: "str_lower (concat (replicate n ''a '')) = concat (replicate n ''a '')"
  by (induction n) (simp_all add: str_lower_def lower_char_a)

lemma split_from_words: "split_from [] (concat (replicate n ''a '')) = replicate n ''a''"
  by (induction n) (simp_all add: isspace_def)

lemma str_contains_absent: "k \<noteq> [] \<Longrightarrow> hd k \<notin> set s \<Longrightarrow> \<not> str_contains k s"
  by (induction s) (auto simp: take_Cons' neq_Nil_conv split: if_splits)

lemma set_words: "set (concat (replicate n ''a '')) \<subseteq> {CHR ''a'', CHR '' ''}"
  by (induction n) auto

lemma keyword_hits_words:
  "keyword_hits complexity_keywords ''essay'' (concat (replicate n ''a '')) = 0"
proof -
  have "\<not> str_contains k (concat (replicate n ''a ''))" if "k \<in> set complexity_keywords" for k
    using that set_words [of n]
    by (intro str_contains_absent) (auto simp: complexity_keywords_def)
  moreover have "\<not> str_contains k ''essay''" if "k \<in> set complexity_keywords" for k
    using that by (auto simp: complexity_keywords_def)
  ultimately show ?thesis
    by (simp add: keyword_hits_def filter_empty_conv)
qed

lemma features_long_essay:
  "word_count (extract_features long_essay) = 1002"
  "f_task_type (extract_features long_essay) = ''writing''"
  "complexity_score (extract_features long_essay) = 0"
    apply (simp_all add: extract_features_def long_essay_def thousand_words_def get_or_def
      str_lower_words str_split_def split_from_words keyword_hits_words Let_def)
  apply (simp_all add: str_lower_def lower_char_def isspace_def keyword_hits_words [unfolded str_lower_def, simplified])
  done

lemma py_int_67: "py_int (135 / 2) = 67"
proof -
  have "\<lfloor>(135::rat) / 2\<rfloor> = 67" by (rule floor_unique) simp_all
  moreover have "(0::rat) \<le> 135 / 2" by simp
  ultimately show ?thesis unfolding py_int_def by simp
qed

text \<open>
  Claim C3. For a task of type writing, research or email the baseline is to be doubled
  when the word count exceeds 1000. The source tests \<^verbatim>\<open>word_count > 500\<close> first and
  \<^verbatim>\<open>word_count > 1000\<close> in the \<^verbatim>\<open>elif\<close>, so the second branch is never taken: the writing
  task of 1002 words gets \<open>45 \<times> 1.5 = 67.5\<close> minutes (reported as 67), not
  \<open>45 \<times> 2.0 = 90\<close>.
\<close>

theorem C3_long_writing_task_scaled_by_one_and_a_half:
  "word_count (extract_features long_essay) = 1002
   \<and> get_base_estimate long_essay (extract_features long_essay) = 45 * 1.5
   \<and> base_estimate_minutes (predict_task_duration sample_now long_essay None None) = 67
   \<and> predicted_minutes (predict_task_duration sample_now long_essay None None) = 67"
  by (simp add: predict_task_duration_def get_base_estimate_def features_long_essay
      base_estimates_def word_count_scale_def adjust_with_history_def adjust_with_profile_def
      py_int_67 Let_def)

lemma round_half_even_bounds:
  assumes "30 \<le> y" "y \<le> 95"
  shows "30 \<le> round_half_even y \<and> round_half_even y \<le> 95"
proof -
  define f where "f = \<lfloor>y\<rfloor>"
  have lo: "30 \<le> f" unfolding f_def using assms(1) by (simp add: le_floor_iff)
  have hi: "f \<le> 95" unfolding f_def using assms(2) by (simp add: floor_le_iff)
  have r: "round_half_even y = f \<or> round_half_even y = f + 1"
    by (simp add: round_half_even_def Let_def f_def)
  show ?thesis
  proof (cases "f = 95")
    case True
    then have "y - of_int \<lfloor>y\<rfloor> \<le> 0" using assms(2) by (simp add: f_def)
    then have "round_half_even y = f" by (simp add: round_half_even_def Let_def f_def)
    then show ?thesis using True by simp
  next
    case False
    then have "f \<le> 94" using hi by linarith
    then show ?thesis using lo r by auto
  qed
qed

lemma py_round2_bounds:
  assumes "3 / 10 \<le> x" "x \<le> 95 / 100"
  shows "3 / 10 \<le> py_round2 x \<and> py_round2 x \<le> 95 / 100"
proof -
  define r where "r = round_half_even (x * 100)"
  have "30 \<le> x * 100" "x * 100 \<le> 95" using assms by simp_all
  from round_half_even_bounds [OF this] have "30 \<le> r" "r \<le> 95"
    by (simp_all add: r_def)
  then have "(of_int 30 :: rat) \<le> of_int r" "(of_int r :: rat) \<le> of_int 95"
    by (simp_all only: of_int_le_iff)
  then have "(30 :: rat) \<le> of_int r" "(of_int r :: rat) \<le> 95"
    by simp_all
  then show ?thesis by (simp add: py_round2_def r_def [symmetric])
qed

lemma clamp_bounds: "(0.3::rat) \<le> max 0.3 (min 0.95 c) \<and> max 0.3 (min 0.95 c) \<le> 0.95"
  by simp

lemma calculate_confidence_bounds:
  "0.3 \<le> calculate_confidence t h p \<and> calculate_confidence t h p \<le> 0.95"
  unfolding calculate_confidence_def Let_def by (rule clamp_bounds)

text \<open>
  Claim C6. For every task, every historical list and every user profile, the
  \<^verbatim>\<open>confidence_score\<close> of the prediction lies in the closed interval from 0.3 to 0.95.
\<close>

theorem C6_confidence_score_within_bounds:
  "0.3 \<le> confidence_score (predict_task_duration now t historical_data user_profile)
   \<and> confidence_score (predict_task_duration now t historical_data user_profile) \<le> 0.95"
proof -
  have "confidence_score (predict_task_duration now t historical_data user_profile)
        = py_round2 (calculate_confidence t historical_data user_profile)"
    by (simp add: predict_task_duration_def Let_def)
  moreover have "3 / 10 \<le> calculate_confidence t historical_data user_profile"
    "calculate_confidence t historical_data user_profile \<le> 95 / 100"
    using calculate_confidence_bounds [of t historical_data user_profile] by simp_all
  ultimately show ?thesis
    using py_round2_bounds [of "calculate_confidence t historical_data user_profile"] by simp
qed

theorem C6_confidence_score_witness:
  "0.3 \<le> confidence_score (predict_task_duration sample_now coding_task (Some [long_essay]) (Some []))
   \<and> confidence_score (predict_task_duration sample_now coding_task (Some [long_essay]) (Some []))
       \<le> 0.95"
  by (rule C6_confidence_score_within_bounds)

lemma adjust_with_history_None: "adjust_with_history b t None = b"
  by (simp add: adjust_with_history_def)

lemma calculate_confidence_None:
  "calculate_confidence t None user_profile =
     max 0.3 (min 0.95 (0.5
       + (case user_profile of
            None \<Rightarrow> 0
          | Some p \<Rightarrow> if p \<noteq> [] \<and> truthy_num (average_task_duration_minutes p) then 0.2 else 0)
       - (if \<not> truthy_str (description t) \<or> length (get_or (description t) []) < 10
          then 0.1 else 0)))"
  by (cases user_profile) (simp_all add: calculate_confidence_def)

text \<open>
  Claim C8. For every task and user profile, the prediction with
  \<^verbatim>\<open>historical_data=None\<close> is the prediction of the pipeline that consists of the base
  estimate followed by the profile adjustment only, with no historical blend and no
  historical term in the confidence.
\<close>

theorem C8_no_history_is_base_then_profile:
  "predict_task_duration now t None user_profile = profile_only_pipeline now t user_profile"
  by (simp add: predict_task_duration_def profile_only_pipeline_def adjust_with_history_None
      calculate_confidence_None Let_def)

theorem C8_no_history_witness:
  "predict_task_duration sample_now coding_task None (Some [(''average_task_duration_minutes'', 45)])
   = profile_only_pipeline sample_now coding_task (Some [(''average_task_duration_minutes'', 45)])
   \<and> predicted_minutes
         (predict_task_duration sample_now coding_task None
            (Some [(''average_task_duration_minutes'', 45)])) = 135"
proof -
  have "\<lfloor>(135::rat)\<rfloor> = 135" by simp
  then have "predicted_minutes
      (profile_only_pipeline sample_now coding_task (Some [(''average_task_duration_minutes'', 45)]))
      = 135"
    by (simp add: profile_only_pipeline_def coding_task_def extract_features_def
        get_base_estimate_def base_estimates_def adjust_with_profile_def
        average_task_duration_minutes_def truthy_num_def get_or_def str_lower_def
        lower_char_def keyword_hits_def complexity_keywords_def py_int_def Let_def)
  then show ?thesis
    using C8_no_history_is_base_then_profile
      [of sample_now coding_task "Some [(''average_task_duration_minutes'', 45)]"]
    by simp
qed

section \<open>Properties of the distraction analyzer\<close>

lemmas datetime_defs = toordinal_def days_before_year_def days_before_month_def is_leap_def
  days_in_month_def wall_micros_def instant_def max_micros_def minus_hours_def ge_cutoff_def

lemma parse_examples:
  "parse_timestamp ''2024-03-05T09:00:00Z'' =
     Inr \<lparr>year = 2024, month = 3, day = 5, hour = 9, minute = 0, second = 0, microsecond = 0,
          tzinfo = Some 0\<rparr>"
  "parse_timestamp ''2020-01-01T00:00:00Z'' =
     Inr \<lparr>year = 2020, month = 1, day = 1, hour = 0, minute = 0, second = 0, microsecond = 0,
          tzinfo = Some 0\<rparr>"
  "parse_timestamp ''2020-01-01T00:00:00'' =
     Inr \<lparr>year = 2020, month = 1, day = 1, hour = 0, minute = 0, second = 0, microsecond = 0,
          tzinfo = None\<rparr>"
  "parse_timestamp ''2024-03-05T09:00:00'' =
     Inr \<lparr>year = 2024, month = 3, day = 5, hour = 9, minute = 0, second = 0, microsecond = 0,
          tzinfo = None\<rparr>"
  by code_simp+

lemma cutoff_sample: "minus_hours sample_now 24 = Inr 63845141400000000"
  by (simp add: sample_now_def datetime_defs)


lemma replace_Z_append: "replace_Z (s @ t) = replace_Z s @ replace_Z t"
  by (simp add: replace_Z_def)

lemma length_replace_Z: "length s \<le> length (replace_Z s)"
  by (induction s) (simp_all add: replace_Z_def)

lemma fromisoformat_offset_aware:
  assumes "11 \<le> length p" and "fromisoformat (p @ ''+00:00'') = Inr d"
  shows "tzinfo d \<noteq> None"
proof -
  have "dropWhile (\<lambda>c. \<not> is_sign c) (drop 11 (p @ ''+00:00'')) \<noteq> []"
    using assms(1) by (simp add: is_sign_def)
  with assms(2) show ?thesis
    by (auto simp: fromisoformat_def Let_def split: if_splits option.splits prod.splits)
qed

lemma zulu_timestamp_aware:
  assumes "11 \<le> length s" and "parse_timestamp (s @ ''Z'') = Inr d"
  shows "tzinfo d \<noteq> None"
proof -
  have "parse_timestamp (s @ ''Z'') = fromisoformat (replace_Z s @ ''+00:00'')"
    by (simp add: parse_timestamp_def replace_Z_append) (simp add: replace_Z_def)
  moreover have "11 \<le> length (replace_Z s)"
    using assms(1) length_replace_Z [of s] by linarith
  ultimately show ?thesis using assms(2) fromisoformat_offset_aware by metis
qed

lemma aware_in_window_faults:
  "activity_time a = Inr d \<Longrightarrow> tzinfo d \<noteq> None \<Longrightarrow> in_window c a = Inl TypeError"
  by (simp add: in_window_def ge_cutoff_def)

lemma analyze_head_fault:
  assumes "in_window c a = Inl e" and "minus_hours now w = Inr c"
  shows "analyze_activity_patterns now (a # rest) w = Inl e"
proof -
  have "recent_activities c (a # rest) = Inl e" using assms(1) by simp
  then show ?thesis
    unfolding analyze_activity_patterns_def
    by (simp only: assms(2) sum.case list.simps if_False)
qed

text \<open>
  Claim C1. For a non-empty activity list whose timestamps are valid ISO-8601 strings with
  a trailing \<^verbatim>\<open>Z\<close>, the analysis is to treat them as UTC and return a report or a
  reported-error object, the comparison with the cutoff never faulting. The source parses
  such a timestamp into an offset-aware datetime and compares it with the offset-naive
  \<^verbatim>\<open>datetime.now() - timedelta(...)\<close>: as soon as the first activity carries a valid
  timestamp with a trailing \<^verbatim>\<open>Z\<close>, the call raises \<open>TypeError\<close>.
\<close>

theorem C1_zulu_timestamp_faults:
  assumes "timestamp a = Some (s @ ''Z'')" and "11 \<le> length s"
    and "parse_timestamp (s @ ''Z'') = Inr d" and "minus_hours now w = Inr cutoff"
  shows "analyze_activity_patterns now (a # rest) w = Inl TypeError"
proof -
  have "activity_time a = Inr d" using assms(1,3) by (simp add: activity_time_def get_or_def)
  moreover have "tzinfo d \<noteq> None" using assms(2,3) by (rule zulu_timestamp_aware)
  ultimately have "in_window cutoff a = Inl TypeError" by (rule aware_in_window_faults)
  then show ?thesis using assms(4) by (rule analyze_head_fault)
qed


theorem C1_zulu_timestamp_witness:
  "timestamp zulu_activity = Some (''2024-03-05T09:00:00'' @ ''Z'')
   \<and> 11 \<le> length ''2024-03-05T09:00:00''
   \<and> parse_timestamp (''2024-03-05T09:00:00'' @ ''Z'') =
       Inr \<lparr>year = 2024, month = 3, day = 5, hour = 9, minute = 0, second = 0,
            microsecond = 0, tzinfo = Some 0\<rparr>
   \<and> minus_hours sample_now 24 = Inr 63845141400000000
   \<and> analyze_activity_patterns sample_now [zulu_activity] 24 = Inl TypeError"
proof -
  have ts: "timestamp zulu_activity = Some (''2024-03-05T09:00:00'' @ ''Z'')"
    by (simp add: zulu_activity_def activity_at_def)
  have len: "11 \<le> length ''2024-03-05T09:00:00''" by simp
  have p: "parse_timestamp (''2024-03-05T09:00:00'' @ ''Z'') =
       Inr \<lparr>year = 2024, month = 3, day = 5, hour = 9, minute = 0, second = 0,
            microsecond = 0, tzinfo = Some 0\<rparr>"
    using parse_examples(1) by simp
  from C1_zulu_timestamp_faults [OF ts len p cutoff_sample, of "[]"] ts len p cutoff_sample
  show ?thesis by blast
qed

lemma foldl_score_step_totals:
  "total_duration (foldl score_step st xs) = total_duration st + sum_list (map duration_of xs)"
  by (induction xs arbitrary: st) (simp_all add: score_step_def duration_of_def Let_def)

lemma foldl_score_step_pool:
  "distraction_duration (foldl score_step st xs)
     = distraction_duration st + sum_list (map weighted_duration (filter over_threshold xs))"
  by (induction xs arbitrary: st)
     (simp_all add: score_step_def weighted_duration_def duration_of_def over_threshold_def
        activity_weight_def category_key_def Let_def)

lemma map_of_update_category:
  "map_of (update_category c dur w xs) k =
     (if k = c
      then Some (case map_of xs c of
                   None \<Rightarrow> \<lparr>c_count = 1, c_total_duration = dur,
                             c_distraction_duration = of_int dur * w, avg_score = 0\<rparr>
                 | Some d \<Rightarrow> d\<lparr>c_count := c_count d + 1,
                                 c_total_duration := c_total_duration d + dur,
                                 c_distraction_duration := c_distraction_duration d + of_int dur * w\<rparr>)
      else map_of xs k)"
  by (induction xs) auto

lemma category_pool_step:
  "category_pool (category_scores (score_step st a)) k =
     (if in_category k a
      then Some (get_or (category_pool (category_scores st) k) 0 + weighted_duration a)
      else category_pool (category_scores st) k)"
  by (cases "map_of (category_scores st) k")
     (auto simp: category_pool_def score_step_def Let_def map_of_update_category in_category_def
        category_key_def weighted_duration_def duration_of_def activity_weight_def get_or_def)

lemma category_pool_foldl:
  "category_pool (category_scores (foldl score_step st xs)) k =
     (if category_pool (category_scores st) k = None \<and> filter (in_category k) xs = [] then None
      else Some (get_or (category_pool (category_scores st) k) 0
                 + sum_list (map weighted_duration (filter (in_category k) xs))))"
proof (induction xs arbitrary: st)
  case Nil
  show ?case by (cases "category_pool (category_scores st) k") (simp_all add: get_or_def)
next
  case (Cons a xs)
  show ?case
    by (cases "category_pool (category_scores st) k")
       (simp_all add: Cons.IH category_pool_step get_or_def)
qed

lemma by_category_pool:
  "category_pool (by_category (calculate_distraction_scores xs)) k =
     (if filter (in_category k) xs = [] then None
      else Some (sum_list (map weighted_duration (filter (in_category k) xs))))"
proof -
  have avg: "category_pool (map (\<lambda>(k, d). (k, set_avg_score d)) cs) k = category_pool cs k" for cs
    by (simp add: category_pool_def map_of_map option.map_comp comp_def set_avg_score_def)
  have empty: "category_pool [] k = None" by (simp add: category_pool_def)
  show ?thesis
    by (simp add: calculate_distraction_scores_def Let_def avg category_pool_foldl empty
        get_or_def)
qed

text \<open>
  Claim C2, as amended. The product of duration and category weight of an activity is
  added to the pool of its category unconditionally, and to the overall distraction pool
  only when the category weight exceeds 0.5 (the source adds to the overall pool under
  \<^verbatim>\<open>if is_distraction\<close>); the total duration is the sum of all durations; the overall
  score is the overall pool divided by the total duration, at most 1, and 0 when the
  total duration is not positive.
\<close>

theorem C2_pool_counts_only_distracting_activities:
  "distraction_duration_seconds (calculate_distraction_scores activities)
     = sum_list (map weighted_duration (filter over_threshold activities))
   \<and> category_pool (by_category (calculate_distraction_scores activities)) k
     = (if filter (in_category k) activities = [] then None
        else Some (sum_list (map weighted_duration (filter (in_category k) activities))))
   \<and> total_duration_seconds (calculate_distraction_scores activities)
     = sum_list (map duration_of activities)
   \<and> overall_distraction_score (calculate_distraction_scores activities)
     = (if sum_list (map duration_of activities) > 0
        then min (sum_list (map weighted_duration (filter over_threshold activities))
                    / of_int (sum_list (map duration_of activities))) 1
        else 0)"
proof -
  have "distraction_duration_seconds (calculate_distraction_scores activities)
     = sum_list (map weighted_duration (filter over_threshold activities))"
    and "total_duration_seconds (calculate_distraction_scores activities)
     = sum_list (map duration_of activities)"
    and "overall_distraction_score (calculate_distraction_scores activities)
     = (if sum_list (map duration_of activities) > 0
        then min (sum_list (map weighted_duration (filter over_threshold activities))
                    / of_int (sum_list (map duration_of activities))) 1
        else 0)"
    by (simp_all add: calculate_distraction_scores_def Let_def foldl_score_step_totals
        foldl_score_step_pool)
  then show ?thesis using by_category_pool [of activities k] by simp
qed

lemma weights_examples:
  "activity_weight work_activity = 1 / 10" "activity_weight naive_activity = 9 / 10"
  "duration_of work_activity = 600" "duration_of naive_activity = 600"
  by (simp_all add: activity_weight_def category_key_def duration_of_def work_activity_def naive_activity_def
      activity_at_def get_or_def str_lower_def lower_char_def category_weight_def
      distraction_categories_def)

text \<open>
  Claim C2 as stated (every activity adds duration times weight to the overall pool)
  fails on one work activity of 600 seconds: the claim gives the pool \<open>600 \<times> 0.1 = 60\<close>,
  the source leaves it at 0.
\<close>

theorem C2_unconditional_pool_counterexample:
  "distraction_duration_seconds (calculate_distraction_scores [work_activity])
     \<noteq> sum_list (map weighted_duration [work_activity])
   \<and> distraction_duration_seconds (calculate_distraction_scores [work_activity]) = 0
   \<and> sum_list (map weighted_duration [work_activity]) = 60
   \<and> overall_distraction_score (calculate_distraction_scores [work_activity]) = 0"
  by (simp add: calculate_distraction_scores_def score_step_def Let_def weighted_duration_def
      weights_examples [unfolded activity_weight_def category_key_def duration_of_def]
      activity_weight_def category_key_def
      duration_of_def)

theorem C2_pool_witness:
  "distraction_duration_seconds (calculate_distraction_scores [work_activity, naive_activity]) = 540
   \<and> category_pool (by_category (calculate_distraction_scores [work_activity, naive_activity]))
         ''work'' = Some 60
   \<and> total_duration_seconds (calculate_distraction_scores [work_activity, naive_activity]) = 1200
   \<and> overall_distraction_score (calculate_distraction_scores [work_activity, naive_activity])
       = 45 / 100"
proof -
  have "in_category ''work'' work_activity" "\<not> in_category ''work'' naive_activity"
    by (simp_all add: in_category_def category_key_def work_activity_def naive_activity_def
        activity_at_def get_or_def str_lower_def lower_char_def)
  then show ?thesis
    using C2_pool_counts_only_distracting_activities [of "[work_activity, naive_activity]" "''work''"]
    by (simp add: weighted_duration_def over_threshold_def weights_examples)
qed

text \<open>
  Claim C4. The mean, maximum and minimum of the distraction scores are to range over the
  activities that carry an explicit \<^verbatim>\<open>distraction_score\<close>, an explicit 0.0 included. The
  source selects them by the truth value of \<^verbatim>\<open>a.get("distraction_score")\<close>, and 0.0 is
  false: of two activities with the scores 0.0 and 0.8 only the second is counted, so the
  mean and the minimum are 0.8 instead of 0.4 and 0.0.
\<close>

theorem C4_explicit_zero_score_is_dropped:
  "distraction_score zero_score_activity = Some 0
   \<and> distraction_score scored_activity = Some 0.8
   \<and> explicit_scores [zero_score_activity, scored_activity] = [0.8]
   \<and> avg_distraction_score
         (calculate_statistics [zero_score_activity, scored_activity]
            (calculate_distraction_scores [zero_score_activity, scored_activity])) = 0.8
   \<and> min_distraction_score
         (calculate_statistics [zero_score_activity, scored_activity]
            (calculate_distraction_scores [zero_score_activity, scored_activity])) = 0.8"
  by (simp add: calculate_statistics_def explicit_scores_def zero_score_activity_def
      scored_activity_def activity_at_def truthy_num_def get_or_def mean_def Let_def)

lemma in_window_old_zulu: "in_window c old_zulu_activity = Inl TypeError"
  by (simp add: in_window_def activity_time_def old_zulu_activity_def activity_at_def get_or_def
      parse_examples ge_cutoff_def)

lemma in_window_old_naive: "in_window 63845141400000000 old_naive_activity = Inr False"
  by (simp add: in_window_def activity_time_def old_naive_activity_def activity_at_def get_or_def
      parse_examples datetime_defs)

lemma analyze_none_recent:
  assumes "minus_hours now w = Inr c" and "recent_activities c (a # rest) = Inr []"
  shows "analyze_activity_patterns now (a # rest) w
           = Inr (Reported ''No recent activities in the specified time window'' 0)"
  unfolding analyze_activity_patterns_def
  by (simp only: assms sum.case list.simps if_False if_True refl)

lemma recent_activities_all_outside:
  "\<forall>a \<in> set as. in_window c a = Inr False \<Longrightarrow> recent_activities c as = Inr []"
  by (induction as) simp_all

lemma outside_window_reported:
  assumes "minus_hours now w = Inr c" and "\<forall>a \<in> set (a0 # rest). in_window c a = Inr False"
  shows "analyze_activity_patterns now (a0 # rest) w
           = Inr (Reported ''No recent activities in the specified time window'' 0)"
  using assms(1) recent_activities_all_outside [OF assms(2)] by (rule analyze_none_recent)

text \<open>
  Claim C5. An empty activity list, and a list whose timestamps all fall outside the time
  window, are to yield the object with an \<^verbatim>\<open>error\<close> field and \<^verbatim>\<open>total_activities = 0\<close>,
  without an exception. This holds for the empty list and for timestamps without an
  offset (\<open>outside_window_reported\<close>); a timestamp four years before the clock reading
  that ends in \<^verbatim>\<open>Z\<close> raises \<open>TypeError\<close> in the window test instead.
\<close>

theorem C5_old_zulu_timestamp_raises:
  "analyze_activity_patterns sample_now [] 24
     = Inr (Reported ''No activities provided for analysis'' 0)
   \<and> analyze_activity_patterns sample_now [old_naive_activity] 24
     = Inr (Reported ''No recent activities in the specified time window'' 0)
   \<and> analyze_activity_patterns sample_now [old_zulu_activity] 24 = Inl TypeError"
proof -
  have "analyze_activity_patterns sample_now [] 24
     = Inr (Reported ''No activities provided for analysis'' 0)"
    by (simp add: analyze_activity_patterns_def)
  moreover have "analyze_activity_patterns sample_now [old_naive_activity] 24
     = Inr (Reported ''No recent activities in the specified time window'' 0)"
    using cutoff_sample by (rule outside_window_reported) (simp add: in_window_old_naive)
  moreover have "analyze_activity_patterns sample_now [old_zulu_activity] 24 = Inl TypeError"
    using in_window_old_zulu cutoff_sample by (rule analyze_head_fault)
  ultimately show ?thesis by blast
qed

section \<open>Properties of the task summary\<close>

lemma map_of_count_append:
  "map_of (count_append k c) k' =
     (if k' = k then Some (get_or (map_of c k) 0 + 1) else map_of c k')"
  by (induction c) (auto simp: get_or_def)

lemma breakdown_foldl:
  "st_priority_breakdown (foldl summarize_step st ts)
     = foldl (\<lambda>c t. count_append (priority_key t) c) (st_priority_breakdown st) ts"
  by (induction ts arbitrary: st) (simp_all add: summarize_step_def)

lemma map_of_tally:
  "map_of (foldl (\<lambda>c t. count_append (priority_key t) c) c ts) k =
     (if map_of c k = None \<and> tally k ts = 0 then None
      else Some (get_or (map_of c k) 0 + tally k ts))"
proof (induction ts arbitrary: c)
  case Nil
  then show ?case by (cases "map_of c k") (simp_all add: tally_def get_or_def)
next
  case (Cons t ts)
  show ?case
    by (cases "map_of c k")
       (auto simp: Cons.IH map_of_count_append tally_def get_or_def)
qed

lemma summarize_breakdown:
  assumes "summarize_tasks client tasks = Inr s" and "tasks \<noteq> []"
  shows "priority_breakdown s
           = foldl (\<lambda>c t. count_append (priority_key t) c)
               [(''urgent'', 0), (''high'', 0), (''medium'', 0), (''low'', 0)] tasks"
  using assms
  by (auto simp: summarize_tasks_def Let_def breakdown_foldl initial_summary_state_def
      split: sum.splits)

text \<open>
  Claim C9, as amended. In \<^verbatim>\<open>summarize_tasks\<close> every task is tallied under the lower-cased
  form of its priority string (\<^verbatim>\<open>medium\<close> when absent), with no other coercion: the
  histogram of a non-empty task list maps a key \<open>k\<close> to the number of tasks whose
  lower-cased priority is \<open>k\<close>, and has exactly the four fixed keys and the lower-cased
  priorities that occur.
\<close>

theorem C9_histogram_keys_are_lower_cased:
  assumes "summarize_tasks client tasks = Inr s" and "tasks \<noteq> []"
  shows "map_of (priority_breakdown s) k =
           (if k \<in> set [''urgent'', ''high'', ''medium'', ''low''] \<or> 0 < tally k tasks
            then Some (tally k tasks) else None)"
  unfolding summarize_breakdown [OF assms] map_of_tally
  by (auto simp: get_or_def)

lemma summarize_blocker: "summarize_tasks None [blocker_task] = Inr blocker_summary"
  by (simp add: summarize_tasks_def blocker_task_def blocker_summary_def summarize_step_def
      initial_summary_state_def generate_ai_summary_def rule_based_summary_def priority_key_def
      estimated_of_def get_or_def str_lower_def lower_char_def digit_char_def Let_def)

text \<open>
  Claim C9 as stated (an unrecognized priority is tallied under the exact string
  supplied) fails on a task of priority \<^verbatim>\<open>Blocker\<close>: the histogram has no key
  \<^verbatim>\<open>Blocker\<close>, the task is counted under \<^verbatim>\<open>blocker\<close>.
\<close>

theorem C9_exact_string_counterexample:
  "priority blocker_task = Some ''Blocker''
   \<and> summarize_tasks None [blocker_task] = Inr blocker_summary
   \<and> map_of (priority_breakdown blocker_summary) ''Blocker'' = None
   \<and> map_of (priority_breakdown blocker_summary) ''blocker'' = Some 1"
  using summarize_blocker by (simp add: blocker_task_def blocker_summary_def)

theorem C9_histogram_witness:
  "summarize_tasks None [blocker_task] = Inr blocker_summary \<and> [blocker_task] \<noteq> []
   \<and> map_of (priority_breakdown blocker_summary) (str_lower ''Blocker'') = Some 1"
proof -
  have nonempty: "[blocker_task] \<noteq> []" by simp
  have "tally (str_lower ''Blocker'') [blocker_task] = 1"
    by (simp add: tally_def priority_key_def blocker_task_def get_or_def)
  moreover have "str_lower ''Blocker'' \<notin> set [''urgent'', ''high'', ''medium'', ''low'']"
    by (simp add: str_lower_def lower_char_def)
  ultimately show ?thesis
    using C9_histogram_keys_are_lower_cased
      [OF summarize_blocker nonempty, of "str_lower ''Blocker''"] summarize_blocker
    by simp
qed

section \<open>Properties of the suggestion ranker\<close>

lemma suggestion_scores:
  "priority_score (schedule_suggestion b) = 0.85"
  "priority_score (overdue_suggestion ts) = 0.95"
  "priority_score (break_suggestion d i) = 0.75"
  "priority_score (duration_suggestion m n) = 0.70"
  "priority_score (distraction_suggestion t) = 0.80"
  by (simp_all add: schedule_suggestion_def overdue_suggestion_def break_suggestion_def
      duration_suggestion_def distraction_suggestion_def Let_def)

lemma schedule_at_most_one:
  "generate_schedule_suggestions fs pd = Inr ys \<Longrightarrow> at_most_one_scored 0.85 ys"
  by (auto simp: generate_schedule_suggestions_def at_most_one_scored_def suggestion_scores
      Let_def split: if_splits sum.splits)

lemma task_at_most_one:
  "generate_task_prioritization_suggestions now ts fs = Inr ys \<Longrightarrow> at_most_one_scored 0.95 ys"
  by (auto simp: generate_task_prioritization_suggestions_def at_most_one_scored_def
      suggestion_scores Let_def split: if_splits sum.splits)

lemma break_at_most_one: "at_most_one_scored 0.75 (generate_break_timing_suggestions fs ap)"
  by (simp add: generate_break_timing_suggestions_def at_most_one_scored_def suggestion_scores
      Let_def)

lemma duration_at_most_one: "at_most_one_scored 0.70 (generate_duration_suggestions fs ts)"
  by (simp add: generate_duration_suggestions_def at_most_one_scored_def suggestion_scores
      Let_def)

lemma pattern_at_most_one: "at_most_one_scored 0.80 (generate_pattern_suggestions ap fs)"
  by (simp add: generate_pattern_suggestions_def at_most_one_scored_def suggestion_scores
      Let_def)


lemma generated_parts:
  assumes "generated_suggestions now pd fs ts ap = Inr gen"
  obtains a b where "generate_schedule_suggestions fs pd = Inr a"
    and "generate_task_prioritization_suggestions now ts fs = Inr b"
    and "gen = a @ b @ generate_break_timing_suggestions fs ap
                 @ generate_duration_suggestions fs ts @ generate_pattern_suggestions ap fs"
  using assms by (auto simp: generated_suggestions_def split: sum.splits)

lemma generated_at_most_five:
  assumes "generated_suggestions now pd fs ts ap = Inr gen"
  shows "length gen \<le> 5" and "priority_score ` set gen \<subseteq> score_constants"
proof -
  from assms obtain a b where a: "generate_schedule_suggestions fs pd = Inr a"
    and b: "generate_task_prioritization_suggestions now ts fs = Inr b"
    and gen: "gen = a @ b @ generate_break_timing_suggestions fs ap
                 @ generate_duration_suggestions fs ts @ generate_pattern_suggestions ap fs"
    by (rule generated_parts)
  note facts = schedule_at_most_one [OF a] task_at_most_one [OF b]
    break_at_most_one [of fs ap] duration_at_most_one [of fs ts] pattern_at_most_one [of ap fs]
  show "length gen \<le> 5" using facts by (simp add: gen at_most_one_scored_def)
  show "priority_score ` set gen \<subseteq> score_constants"
    using facts by (auto simp: gen at_most_one_scored_def score_constants_def)
qed

lemma generate_suggestions_sorted:
  assumes "generate_suggestions now uid pd fs ts ap = Inr out"
  obtains gen where "generated_suggestions now pd fs ts ap = Inr gen"
    and "out = sort_by_priority gen"
proof -
  from assms obtain gen where gen: "generated_suggestions now pd fs ts ap = Inr gen"
    and out: "out = take 10 (sort_by_priority gen)"
    by (auto simp: generate_suggestions_def split: sum.splits)
  have "length (sort_by_priority gen) \<le> 10"
    using generated_at_most_five(1) [OF gen] by (simp add: sort_by_priority_def)
  then have "out = sort_by_priority gen" using out by simp
  with gen show ?thesis by (rule that)
qed

lemma descending_sort_by_priority: "descending (sort_by_priority xs)"
proof -
  have "sorted (map (\<lambda>s. - priority_score s) (sort_key (\<lambda>s. - priority_score s) xs))"
    by (rule sorted_sort_key)
  then show ?thesis by (simp add: descending_def sort_by_priority_def sorted_map)
qed

lemma sort_by_priority_stable:
  "filter (\<lambda>s. priority_score s = p) (sort_by_priority xs) = filter (\<lambda>s. priority_score s = p) xs"
  using sort_key_stable [of "\<lambda>s. - priority_score s" "- p" xs]
  by (simp add: sort_by_priority_def)

text \<open>
  Claim C7. Whenever \<^verbatim>\<open>generate_suggestions\<close> returns a list, the list has at most 10
  elements and is sorted by \<^verbatim>\<open>priority_score\<close>, largest first, and the suggestions of
  equal score are in the order in which they were generated: for every score, the
  suggestions of that score in the result are those of the generated list, in the same
  order.
\<close>

theorem C7_at_most_ten_sorted_descending_stable:
  assumes "generate_suggestions now uid pd fs ts ap = Inr out"
  shows "length out \<le> 10 \<and> descending out
         \<and> (\<exists>gen. generated_suggestions now pd fs ts ap = Inr gen
                \<and> (\<forall>p. filter (\<lambda>s. priority_score s = p) out
                         = filter (\<lambda>s. priority_score s = p) gen))"
proof -
  from assms obtain gen where gen: "generated_suggestions now pd fs ts ap = Inr gen"
    and out: "out = sort_by_priority gen"
    by (rule generate_suggestions_sorted)
  have "length out \<le> 10"
    using generated_at_most_five(1) [OF gen] by (simp add: out sort_by_priority_def)
  moreover have "descending out" unfolding out by (rule descending_sort_by_priority)
  moreover have "\<forall>p. filter (\<lambda>s. priority_score s = p) out
                     = filter (\<lambda>s. priority_score s = p) gen"
    unfolding out by (simp add: sort_by_priority_stable)
  ultimately show ?thesis using gen by blast
qed

text \<open>
  Claim C10. Each of the five sub-generators (schedule optimization, task
  prioritization, break timing, focus duration, distraction management) emits at most
  one suggestion, with the score 0.85, 0.95, 0.75, 0.70 and 0.80 respectively; so a list
  returned by \<^verbatim>\<open>generate_suggestions\<close> has at most 5 elements, and the score of each is
  one of these constants.
\<close>

theorem C10_at_most_one_each_and_fixed_scores:
  "returns_at_most_one 0.85 (generate_schedule_suggestions fs pd)
   \<and> returns_at_most_one 0.95 (generate_task_prioritization_suggestions now ts fs)
   \<and> at_most_one_scored 0.75 (generate_break_timing_suggestions fs ap)
   \<and> at_most_one_scored 0.70 (generate_duration_suggestions fs ts)
   \<and> at_most_one_scored 0.80 (generate_pattern_suggestions ap fs)
   \<and> (\<forall>out. generate_suggestions now uid pd fs ts ap = Inr out \<longrightarrow>
         length out \<le> 5 \<and> priority_score ` set out \<subseteq> score_constants)"
proof -
  have "length out \<le> 5 \<and> priority_score ` set out \<subseteq> score_constants"
    if "generate_suggestions now uid pd fs ts ap = Inr out" for out
  proof -
    from that obtain gen where gen: "generated_suggestions now pd fs ts ap = Inr gen"
      and out: "out = sort_by_priority gen"
      by (rule generate_suggestions_sorted)
    show ?thesis
      using generated_at_most_five [OF gen] by (simp add: out sort_by_priority_def)
  qed
  moreover have "returns_at_most_one 0.85 (generate_schedule_suggestions fs pd)"
    by (auto simp: returns_at_most_one_def split: sum.splits dest: schedule_at_most_one)
  moreover have "returns_at_most_one 0.95 (generate_task_prioritization_suggestions now ts fs)"
    by (auto simp: returns_at_most_one_def split: sum.splits dest: task_at_most_one)
  ultimately show ?thesis
    using break_at_most_one duration_at_most_one pattern_at_most_one by blast
qed


lemma parse_session_examples:
  "parse_timestamp ''2024-03-04T09:00:00'' =
     Inr \<lparr>year = 2024, month = 3, day = 4, hour = 9, minute = 0, second = 0, microsecond = 0,
          tzinfo = None\<rparr>"
  "parse_timestamp ''2024-03-04T14:00:00'' =
     Inr \<lparr>year = 2024, month = 3, day = 4, hour = 14, minute = 0, second = 0, microsecond = 0,
          tzinfo = None\<rparr>"
  "parse_timestamp ''2024-03-04T10:00:00'' =
     Inr \<lparr>year = 2024, month = 3, day = 4, hour = 10, minute = 0, second = 0, microsecond = 0,
          tzinfo = None\<rparr>"
  "parse_timestamp ''2024-03-01T12:00:00'' =
     Inr \<lparr>year = 2024, month = 3, day = 1, hour = 12, minute = 0, second = 0, microsecond = 0,
          tzinfo = None\<rparr>"
  by code_simp+

lemma schedule_sample:
  "generate_schedule_suggestions sample_sessions [] = Inr [schedule_suggestion sample_best_hours]"
  by (simp add: generate_schedule_suggestions_def sample_sessions_def session_def get_or_def
      parse_session_examples productivity_def sample_best_hours_def Let_def)

lemma overdue_sample:
  "generate_task_prioritization_suggestions sample_now [overdue_task] fs
     = Inr [overdue_suggestion [overdue_task]]"
proof -
  have "is_overdue sample_now overdue_task = Inr True"
    by (simp add: is_overdue_def overdue_task_def truthy_str_def get_or_def
        parse_session_examples dt_lt_def same_kind_def sample_now_def datetime_defs)
  moreover have "incomplete_high_priority overdue_task"
    by (simp add: incomplete_high_priority_def overdue_task_def get_or_def str_lower_def
        lower_char_def)
  ultimately show ?thesis
    by (simp add: generate_task_prioritization_suggestions_def Let_def)
qed

lemma break_sample:
  "generate_break_timing_suggestions sample_sessions ap = [break_suggestion (115 / 2) 4]"
  by (simp add: generate_break_timing_suggestions_def sample_sessions_def session_def get_or_def
      mean_def Let_def)

lemma duration_sample:
  "generate_duration_suggestions sample_sessions ts = [duration_suggestion 45 1]"
  by (simp add: generate_duration_suggestions_def sample_sessions_def session_def get_or_def
      median_def Let_def)

lemma pattern_sample:
  "generate_pattern_suggestions [social_pattern] fs = [distraction_suggestion (''social'', 1)]"
  by (simp add: generate_pattern_suggestions_def social_pattern_def get_or_def counter_def
      Let_def)

lemma generate_sample:
  "generate_suggestions sample_now ''u1'' [] sample_sessions [overdue_task] [social_pattern]
     = Inr sample_ranking"
  by (simp add: generate_suggestions_def generated_suggestions_def schedule_sample
      overdue_sample break_sample duration_sample pattern_sample sort_by_priority_def
      suggestion_scores sample_ranking_def)


theorem C7_ranking_witness:
  "generate_suggestions sample_now ''u1'' [] sample_sessions [overdue_task] [social_pattern]
     = Inr sample_ranking
   \<and> length sample_ranking \<le> 10 \<and> descending sample_ranking
   \<and> map priority_score sample_ranking = [0.95, 0.85, 0.80, 0.75, 0.70]"
proof -
  have "map priority_score sample_ranking = [0.95, 0.85, 0.80, 0.75, 0.70]"
    by (simp add: sample_ranking_def suggestion_scores)
  then show ?thesis
    using C7_at_most_ten_sorted_descending_stable [OF generate_sample] generate_sample
    by blast
qed

theorem C10_fixed_scores_witness:
  "generate_suggestions sample_now ''u1'' [] sample_sessions [overdue_task] [social_pattern]
     = Inr sample_ranking
   \<and> length sample_ranking \<le> 5
   \<and> priority_score ` set sample_ranking \<subseteq> score_constants
   \<and> at_most_one_scored 0.75 (generate_break_timing_suggestions sample_sessions [social_pattern])
   \<and> generate_break_timing_suggestions sample_sessions [social_pattern]
       = [break_suggestion (115 / 2) 4]"
  using C10_at_most_one_each_and_fixed_scores
    [of sample_sessions "[]" sample_now "[overdue_task]" "[social_pattern]" "''u1''"]
    generate_sample break_sample [of "[social_pattern]"]
  by blast

end
